theory Spec2Isabelle
  imports Main "HOL-Library.Word"
begin

unbundle bit_operations_syntax

section \<open>Data model of the DRI2 swap scheduler (src/sna/sna_dri.c)\<close>

text \<open>
  Pointers are addresses. Pointers to buffers, buffer objects and pixmaps are plain
  numbers with \<open>0\<close> for \<open>NULL\<close>, as the C code tests them; pointers to frame events,
  clients and completion callbacks are options, \<open>None\<close> for \<open>NULL\<close>. An X resource id
  is a number, \<open>0\<close> being \<open>None\<close>.
\<close>

type_synonym XID = nat
type_synonym ClientPtr = nat
type_synonym evptr = nat
type_synonym bufptr = nat
type_synonym boptr = nat
type_synonym pixptr = nat

datatype frame_event_type =
    DRI2_SWAP
  | DRI2_SWAP_THROTTLE
  | DRI2_XCHG_THROTTLE
  | DRI2_ASYNC_FLIP
  | DRI2_FLIP
  | DRI2_FLIP_THROTTLE
  | DRI2_WAITMSC

text \<open>The anonymous struct of \<open>old_front\<close>, \<open>next_front\<close> and \<open>cache\<close>.\<close>

record name_bo =
  nb_bo :: boptr
  nb_name :: "32 word"

text \<open>\<open>struct sna_dri_frame_event\<close>. The two list heads are kept in the resource
  tables of the state; \<open>old_fb\<close> is only written by the page-flip backend.\<close>

record sna_dri_frame_event =
  drawable_id :: XID
  client :: "ClientPtr option"
  etype :: frame_event_type
  frame :: "32 word"
  pipe :: int
  count :: int
  event_complete :: "nat option"
  event_data :: nat
  front_buf :: bufptr
  back_buf :: bufptr
  bo :: boptr
  chain :: "evptr option"
  fe_frame :: "32 word"
  fe_tv_sec :: "32 word"
  fe_tv_usec :: "32 word"
  old_front :: name_bo
  next_front :: name_bo
  cache :: name_bo
  off_delay :: int

text \<open>A \<open>DRI2Buffer2Rec\<close> together with the \<open>struct sna_dri_private\<close> that
  \<open>get_private\<close> finds right behind it.\<close>

record dri2_buffer =
  attachment :: nat
  name :: "32 word"
  format :: nat
  refcnt :: int
  pixmap :: pixptr
  priv_bo :: boptr
  priv_chain :: "evptr option"

record kgem_bo =
  bo_refcnt :: int
  tiling :: nat
  pitch :: nat
  bo_size :: nat

record BoxRec =
  box_x1 :: int
  box_y1 :: int
  box_x2 :: int
  box_y2 :: int

text \<open>A region: its extents and its rectangles (\<open>data\<close> is \<open>None\<close> for the
  \<open>NULL\<close> data pointer of a region of one rectangle).\<close>

record RegionRec =
  extents :: BoxRec
  data :: "BoxRec list option"

record PixmapRec =
  pix_width :: nat
  pix_height :: nat
  screen_x :: int
  screen_y :: int
  gpu_bo :: boptr

datatype drawable_type = DRAWABLE_WINDOW | DRAWABLE_PIXMAP

text \<open>What the scheduler reads of a drawable: its own fields, the pixmap behind it
  (\<open>get_drawable_pixmap\<close>, for a window \<open>get_window_pixmap\<close>), the clip list of a
  window, the \<open>winSize\<close> of the root window of its screen, the pipe of the CRTC
  that \<open>sna_covering_crtc\<close> finds for its box (\<open>None\<close> when no CRTC covers it), and
  whether the clip list meets the box of the drawable (\<open>pixman_region_not_empty\<close> of their
  \<open>pixman_region_intersect\<close>; pixman is not among the sources).\<close>

record DrawableRec =
  draw_type :: drawable_type
  draw_id :: XID
  draw_x :: int
  draw_y :: int
  draw_width :: nat
  draw_height :: nat
  bitsPerPixel :: nat
  draw_pixmap :: pixptr
  clipList :: RegionRec
  root_winSize :: RegionRec
  covering_crtc :: "int option"
  clip_visible :: bool

datatype completion = DRI2_EXCHANGE_COMPLETE | DRI2_BLIT_COMPLETE | DRI2_FLIP_COMPLETE

text \<open>A \<open>drmVBlank\<close> request: the flags of \<open>request.type\<close>, the CRTC bits that
  \<open>pipe_select\<close> adds, the sequence and the signal token.\<close>

record drmVBlankReq =
  vbl_absolute :: bool
  vbl_event :: bool
  vbl_nextonmiss :: bool
  vbl_crtc :: "32 word"
  vbl_sequence :: "32 word"
  vbl_signal :: "evptr option"

text \<open>Calls into the collaborators, in the order the driver makes them.\<close>

datatype effect =
    SwapComplete "ClientPtr option" XID "32 word" "32 word" "32 word" completion "nat option" nat
  | WaitMSCComplete ClientPtr XID "32 word" "32 word" "32 word"
  | WaitVBlank drmVBlankReq "32 word option"
  | PageFlip boptr evptr int int
  | CopyToFront XID boptr boptr bool
  | Calloc "evptr option"
  | FreeEvent evptr
  | FreeBuffer bufptr
  | DestroyPixmap pixptr
  | DamagePixmap pixptr
  | Warning

datatype error = AssertFailed | BadPointer

text \<open>The driver state the scheduler reads and writes: the heap of frame events, the
  DRI2 buffers, buffer objects and pixmaps, the pending-flip slot \<open>sna->dri.flip_pending\<close>,
  the two resource tables that list the frame events of a client and of a drawable, the
  vertical-blank events the kernel still owes, the \<open>static int limit\<close> of
  \<open>sna_dri_flip_event\<close>, and the calls made so far.\<close>

record sna =
  events :: "evptr \<Rightarrow> sna_dri_frame_event option"
  next_event :: evptr
  buffers :: "bufptr \<Rightarrow> dri2_buffer"
  bos :: "boptr \<Rightarrow> kgem_bo"
  pixmaps :: "pixptr \<Rightarrow> PixmapRec"
  flip_pending :: "evptr option"
  client_resource :: "ClientPtr \<Rightarrow> evptr list"
  drawable_resource :: "XID \<Rightarrow> evptr list"
  vblank_queue :: "evptr list"
  msc_warn_limit :: int
  log :: "effect list"

text \<open>What a call finds around it: the screen and build configuration
  (\<open>sna->scrn->vtSema\<close>, the flags, \<open>sna->mode.shadow_active\<close>, \<open>sna->front\<close>,
  whether \<open>COMPOSITE\<close> and \<open>NDEBUG\<close> are defined).\<close>

record sna_config =
  vtSema :: bool
  SNA_NO_FLIP :: bool
  SNA_NO_WAIT :: bool
  shadow_active :: bool
  sna_front :: pixptr
  COMPOSITE :: bool
  NDEBUG :: bool

text \<open>The answers of the collaborators during one call: the server's drawable lookup,
  \<open>calloc\<close>, the two \<open>get_resource\<close> calls of \<open>sna_dri_add_frame_event\<close>, the
  replies of the vertical-blank ioctl at each place it is issued (\<open>None\<close> for an error
  return, else \<open>reply.sequence\<close>), the count \<open>sna_page_flip\<close> returns, the buffer
  object \<open>sna_dri_copy_to_front\<close> returns, \<open>kgem_bo_is_busy\<close> before and after
  \<open>kgem_retire\<close>, and \<open>kgem_create_2d\<close> with \<open>kgem_bo_flink\<close>.\<close>

record answers =
  dixLookupDrawable :: "XID \<Rightarrow> DrawableRec option"
  calloc_ok :: bool
  client_resource_ok :: bool
  drawable_resource_ok :: bool
  vbl_query :: "32 word option"
  vbl_arm :: "32 word option"
  vbl_postpone :: "32 word option"
  vbl_chain :: "32 word option"
  page_flip_count :: int
  copy_bo :: boptr
  bo_busy :: bool
  bo_busy_retired :: bool
  create_2d :: boptr
  flink :: "32 word"

section \<open>Helpers\<close>

definition emit :: "effect \<Rightarrow> sna \<Rightarrow> sna" where
  "emit x s = s\<lparr>log := log s @ [x]\<rparr>"

definition upd_event :: "evptr \<Rightarrow> (sna_dri_frame_event \<Rightarrow> sna_dri_frame_event) \<Rightarrow> sna \<Rightarrow> sna" where
  "upd_event e f s = s\<lparr>events := (events s)(e := map_option f (events s e))\<rparr>"

definition upd_buffer :: "bufptr \<Rightarrow> (dri2_buffer \<Rightarrow> dri2_buffer) \<Rightarrow> sna \<Rightarrow> sna" where
  "upd_buffer b f s = s\<lparr>buffers := (buffers s)(b := f (buffers s b))\<rparr>"

text \<open>\<open>ref(bo)\<close>: one more reference.\<close>

definition ref :: "boptr \<Rightarrow> sna \<Rightarrow> sna" where
  "ref b s = s\<lparr>bos := (bos s)(b := (bos s b)\<lparr>bo_refcnt := bo_refcnt (bos s b) + 1\<rparr>)\<rparr>"

text \<open>Modelled from the spec: \<open>kgem_bo_destroy\<close> (kgem.h is not among the sources) is
  the \<open>release(handle)\<close> of the Buffer Handle, which decrements the reference count;
  what the allocator does with a buffer object whose count reached zero is left out.\<close>

definition kgem_bo_destroy :: "boptr \<Rightarrow> sna \<Rightarrow> sna" where
  "kgem_bo_destroy b s = s\<lparr>bos := (bos s)(b := (bos s b)\<lparr>bo_refcnt := bo_refcnt (bos s b) - 1\<rparr>)\<rparr>"

text \<open>\<open>list_del\<close> on the list heads of a frame event: the event leaves whatever
  list it is on.\<close>

definition list_del_client :: "evptr \<Rightarrow> sna \<Rightarrow> sna" where
  "list_del_client e s = s\<lparr>client_resource := (\<lambda>c. removeAll e (client_resource s c))\<rparr>"

definition list_del_drawable :: "evptr \<Rightarrow> sna \<Rightarrow> sna" where
  "list_del_drawable e s = s\<lparr>drawable_resource := (\<lambda>d. removeAll e (drawable_resource s d))\<rparr>"

text \<open>\<open>calloc(1, sizeof(struct sna_dri_frame_event))\<close>: a zeroed event at a fresh
  address, or \<open>NULL\<close>.\<close>

definition calloc_event :: sna_dri_frame_event where
  "calloc_event =
     \<lparr>drawable_id = 0, client = None, etype = DRI2_SWAP, frame = 0, pipe = 0, count = 0,
      event_complete = None, event_data = 0, front_buf = 0, back_buf = 0, bo = 0,
      chain = None, fe_frame = 0, fe_tv_sec = 0, fe_tv_usec = 0,
      old_front = \<lparr>nb_bo = 0, nb_name = 0\<rparr>, next_front = \<lparr>nb_bo = 0, nb_name = 0\<rparr>,
      cache = \<lparr>nb_bo = 0, nb_name = 0\<rparr>, off_delay = 0\<rparr>"

definition calloc :: "answers \<Rightarrow> sna \<Rightarrow> evptr option \<times> sna" where
  "calloc ans s =
     (if calloc_ok ans
      then (Some (next_event s),
            (emit (Calloc (Some (next_event s))) s)
              \<lparr>events := (events s)(next_event s := Some calloc_event),
               next_event := Suc (next_event s)\<rparr>)
      else (None, emit (Calloc None) s))"

text \<open>\<open>free(info)\<close>.\<close>

definition free_event :: "evptr \<Rightarrow> sna \<Rightarrow> sna" where
  "free_event e s = (emit (FreeEvent e) s)\<lparr>events := (events s)(e := None)\<rparr>"

text \<open>\<open>sna_wait_vblank\<close>: the ioctl with the reply the kernel gives. A request with
  \<open>DRM_VBLANK_EVENT\<close> that succeeds leaves its signal token with the kernel.\<close>

definition sna_wait_vblank :: "drmVBlankReq \<Rightarrow> 32 word option \<Rightarrow> sna \<Rightarrow> sna" where
  "sna_wait_vblank req reply s =
     (let s1 = emit (WaitVBlank req reply) s
      in case (reply, vbl_event req, vbl_signal req) of
           (Some _, True, Some e) \<Rightarrow> s1\<lparr>vblank_queue := vblank_queue s1 @ [e]\<rparr>
         | _ \<Rightarrow> s1)"

text \<open>The constants of \<open>xf86drm.h\<close> and \<open>dri2tokens.h\<close> that the code names.\<close>

definition DRM_VBLANK_HIGH_CRTC_SHIFT :: nat where
  "DRM_VBLANK_HIGH_CRTC_SHIFT = 1"

definition DRM_VBLANK_SECONDARY :: "32 word" where
  "DRM_VBLANK_SECONDARY = 0x20000000"

definition DRI2BufferFrontLeft :: nat where
  "DRI2BufferFrontLeft = 0"

definition pipe_select :: "int \<Rightarrow> 32 word" where
  "pipe_select p =
     (if p > 1 then push_bit DRM_VBLANK_HIGH_CRTC_SHIFT (word_of_int p)
      else if p > 0 then DRM_VBLANK_SECONDARY
      else 0)"

definition sna_dri_get_pipe :: "DrawableRec \<Rightarrow> int" where
  "sna_dri_get_pipe pDraw =
     (if draw_type pDraw = DRAWABLE_PIXMAP then - 1
      else case covering_crtc pDraw of None \<Rightarrow> - 1 | Some p \<Rightarrow> p)"

text \<open>\<open>RegionEqual\<close> of the server: same extents and same rectangles.\<close>

definition RegionEqual :: "RegionRec \<Rightarrow> RegionRec \<Rightarrow> bool" where
  "RegionEqual r1 r2 = (extents r1 = extents r2 \<and> data r1 = data r2)"

definition DRI2SwapComplete ::
  "ClientPtr option \<Rightarrow> DrawableRec \<Rightarrow> 32 word \<Rightarrow> 32 word \<Rightarrow> 32 word \<Rightarrow> completion \<Rightarrow>
   nat option \<Rightarrow> nat \<Rightarrow> sna \<Rightarrow> sna" where
  "DRI2SwapComplete c draw frm tv_sec tv_usec ty swap_complete swap_data s =
     emit (SwapComplete c (draw_id draw) frm tv_sec tv_usec ty swap_complete swap_data) s"

text \<open>The early return \<open>all clipped\<close> of \<open>sna_dri_copy_to_front\<close> with no region: the
  drawable is a window whose clip list is not one box of the size of the window, and the
  clip list does not meet the box of the window.\<close>

definition all_clipped :: "DrawableRec \<Rightarrow> bool" where
  "all_clipped draw =
     (draw_type draw \<noteq> DRAWABLE_PIXMAP \<and>
      (data (clipList draw) \<noteq> None \<or>
       box_x2 (extents (clipList draw)) - box_x1 (extents (clipList draw))
         \<noteq> int (draw_width draw) \<or>
       box_y2 (extents (clipList draw)) - box_y1 (extents (clipList draw))
         \<noteq> int (draw_height draw)) \<and>
      \<not> clip_visible draw)"

text \<open>\<open>sna_dri_copy_to_front\<close> with no region: nothing is done when all is clipped;
  else the copy is handed to the GPU, and the buffer object of the last request is
  returned when the copy was synchronised to the scanline and flushed, which only a
  \<open>sync\<close> copy to a window can be, else \<open>NULL\<close>.\<close>

definition sna_dri_copy_to_front ::
  "answers \<Rightarrow> DrawableRec \<Rightarrow> boptr \<Rightarrow> boptr \<Rightarrow> bool \<Rightarrow> sna \<Rightarrow> boptr \<times> sna" where
  "sna_dri_copy_to_front ans draw dst_bo src_bo sync s =
     (if all_clipped draw then (0, s)
      else (if sync \<and> draw_type draw \<noteq> DRAWABLE_PIXMAP then copy_bo ans else 0,
            emit (CopyToFront (draw_id draw) dst_bo src_bo sync) s))"

section \<open>Buffers: release, exchange, eligibility\<close>

definition sna_dri_destroy_buffer :: "bufptr \<Rightarrow> sna \<Rightarrow> sna" where
  "sna_dri_destroy_buffer buffer s =
     (if buffer = 0 then s
      else let s1 = upd_buffer buffer (\<lambda>p. p\<lparr>refcnt := refcnt p - 1\<rparr>) s
           in if refcnt (buffers s1 buffer) = 0
              then let s2 = (if pixmap (buffers s1 buffer) \<noteq> 0
                             then emit (DestroyPixmap (pixmap (buffers s1 buffer))) s1 else s1);
                       s3 = kgem_bo_destroy (priv_bo (buffers s2 buffer)) s2
                   in emit (FreeBuffer buffer) s3
              else s1)"

definition sna_dri_reference_buffer :: "bufptr \<Rightarrow> sna \<Rightarrow> sna" where
  "sna_dri_reference_buffer buffer s = upd_buffer buffer (\<lambda>p. p\<lparr>refcnt := refcnt p + 1\<rparr>) s"

definition set_bo :: "pixptr \<Rightarrow> boptr \<Rightarrow> sna \<Rightarrow> sna" where
  "set_bo pm b s =
     (let s1 = kgem_bo_destroy (gpu_bo (pixmaps s pm)) s;
          s2 = ref b s1;
          s3 = s2\<lparr>pixmaps := (pixmaps s2)(pm := (pixmaps s2 pm)\<lparr>gpu_bo := b\<rparr>)\<rparr>
      in emit (DamagePixmap pm) s3)"

definition sna_dri_exchange_buffers ::
  "sna_config \<Rightarrow> DrawableRec \<Rightarrow> bufptr \<Rightarrow> bufptr \<Rightarrow> sna \<Rightarrow> error + sna" where
  "sna_dri_exchange_buffers cfg draw front back s =
     (let pm = draw_pixmap draw;
          back_bo = priv_bo (buffers s back);
          front_bo = priv_bo (buffers s front)
      in if \<not> NDEBUG cfg \<and>
            \<not> pix_height (pixmaps s pm) * pitch (bos s back_bo) \<le> bo_size (bos s back_bo)
         then Inl AssertFailed
         else if \<not> NDEBUG cfg \<and>
            \<not> pix_height (pixmaps s pm) * pitch (bos s front_bo) \<le> bo_size (bos s front_bo)
         then Inl AssertFailed
         else
           let s1 = set_bo pm back_bo s;
               s2 = upd_buffer front (\<lambda>p. p\<lparr>priv_bo := back_bo\<rparr>) s1;
               s3 = upd_buffer back (\<lambda>p. p\<lparr>priv_bo := front_bo\<rparr>) s2;
               tmp = name (buffers s3 front);
               s4 = upd_buffer front (\<lambda>p. p\<lparr>name := name (buffers s3 back)\<rparr>) s3;
               s5 = upd_buffer back (\<lambda>p. p\<lparr>name := tmp\<rparr>) s4
           in Inr s5)"

definition can_flip :: "sna_config \<Rightarrow> sna \<Rightarrow> DrawableRec \<Rightarrow> bufptr \<Rightarrow> bufptr \<Rightarrow> bool" where
  "can_flip cfg s draw front back =
     (let pm = draw_pixmap draw
      in if draw_type draw = DRAWABLE_PIXMAP then False
         else if \<not> vtSema cfg then False
         else if SNA_NO_FLIP cfg then False
         else if format (buffers s front) \<noteq> format (buffers s back) then False
         else if attachment (buffers s front) \<noteq> DRI2BufferFrontLeft then False
         else if shadow_active cfg then False
         else if pm \<noteq> sna_front cfg then False
         else if \<not> RegionEqual (clipList draw) (root_winSize draw) then False
         else if draw_x draw \<noteq> 0 \<or> draw_y draw \<noteq> 0 \<or>
                 (COMPOSITE cfg \<and>
                   (draw_x draw \<noteq> screen_x (pixmaps s pm) \<or> draw_y draw \<noteq> screen_y (pixmaps s pm))) \<or>
                 draw_width draw \<noteq> pix_width (pixmaps s pm) \<or>
                 draw_height draw \<noteq> pix_height (pixmaps s pm)
         then False
         else if tiling (bos s (priv_bo (buffers s front))) \<noteq> tiling (bos s (priv_bo (buffers s back)))
         then False
         else True)"

definition can_exchange :: "sna_config \<Rightarrow> sna \<Rightarrow> DrawableRec \<Rightarrow> bufptr \<Rightarrow> bufptr \<Rightarrow> bool" where
  "can_exchange cfg s draw front back =
     (let pm = draw_pixmap draw
      in if draw_type draw = DRAWABLE_PIXMAP then True
         else if format (buffers s front) \<noteq> format (buffers s back) then False
         else if pm = sna_front cfg then False
         else if pix_width (pixmaps s pm) \<noteq> draw_width draw \<or>
                 pix_height (pixmaps s pm) \<noteq> draw_height draw
         then False
         else True)"

section \<open>Frame events: release, page flip, the vertical-blank handler\<close>

text \<open>A \<open>struct drm_event_vblank\<close>: the frame event that \<open>user_data\<close> points to,
  bit 0 of \<open>user_data\<close> (which the page-flip handler reads as a flag), and the time.\<close>

record drm_event_vblank =
  user_data :: evptr
  user_data_bit0 :: bool
  sequence :: "32 word"
  tv_sec :: "32 word"
  tv_usec :: "32 word"

definition sna_dri_frame_event_info_free :: "evptr \<Rightarrow> sna \<Rightarrow> error + sna" where
  "sna_dri_frame_event_info_free e s =
     (case events s e of
        None \<Rightarrow> Inl BadPointer
      | Some info \<Rightarrow>
          let s1 = list_del_client e s;
              s2 = list_del_drawable e s1;
              s3 = sna_dri_destroy_buffer (front_buf info) s2;
              s4 = sna_dri_destroy_buffer (back_buf info) s3;
              s5 = (if nb_bo (old_front info) \<noteq> 0
                    then kgem_bo_destroy (nb_bo (old_front info)) s4 else s4);
              s6 = (if nb_bo (next_front info) \<noteq> 0
                    then kgem_bo_destroy (nb_bo (next_front info)) s5 else s5);
              s7 = (if nb_bo (cache info) \<noteq> 0
                    then kgem_bo_destroy (nb_bo (cache info)) s6 else s6);
              s8 = (if bo info \<noteq> 0 then kgem_bo_destroy (bo info) s7 else s7)
          in Inr (free_event e s8))"

definition sna_dri_page_flip :: "sna_config \<Rightarrow> answers \<Rightarrow> evptr \<Rightarrow> sna \<Rightarrow> error + bool \<times> sna" where
  "sna_dri_page_flip cfg ans e s =
     (case events s e of
        None \<Rightarrow> Inl BadPointer
      | Some info \<Rightarrow>
          let b = priv_bo (buffers s (back_buf info));
              s1 = emit (PageFlip b e (pipe info) (page_flip_count ans)) s;
              s2 = upd_event e (\<lambda>i. i\<lparr>count := page_flip_count ans\<rparr>) s1
          in if page_flip_count ans = 0 then Inr (False, s2)
             else
               let s3 = upd_event e (\<lambda>i. i\<lparr>old_front :=
                          \<lparr>nb_bo = priv_bo (buffers s2 (front_buf info)),
                           nb_name = name (buffers s2 (front_buf info))\<rparr>\<rparr>) s2;
                   s4 = set_bo (sna_front cfg) b s3;
                   s5 = upd_buffer (front_buf info)
                          (\<lambda>p. p\<lparr>name := name (buffers s4 (back_buf info))\<rparr>) s4;
                   s6 = upd_buffer (front_buf info) (\<lambda>p. p\<lparr>priv_bo := b\<rparr>) s5
               in Inr (True, s6))"

definition chain_swap ::
  "sna_config \<Rightarrow> answers \<Rightarrow> DrawableRec \<Rightarrow> drm_event_vblank \<Rightarrow> evptr \<Rightarrow> sna \<Rightarrow> error + sna" where
  "chain_swap cfg ans draw event ch s =
     (case events s ch of
        None \<Rightarrow> Inl BadPointer
      | Some c \<Rightarrow>
          (case (if etype c = DRI2_XCHG_THROTTLE
                 then (case sna_dri_exchange_buffers cfg draw (front_buf c) (back_buf c) s of
                         Inl err \<Rightarrow> Inl err
                       | Inr s1 \<Rightarrow> Inr (DRI2_EXCHANGE_COMPLETE, s1))
                 else (let (b, s1) = sna_dri_copy_to_front ans draw
                                       (priv_bo (buffers s (front_buf c)))
                                       (priv_bo (buffers s (back_buf c))) True s
                       in Inr (DRI2_BLIT_COMPLETE, upd_event ch (\<lambda>i. i\<lparr>bo := b\<rparr>) s1)))
           of
             Inl err \<Rightarrow> Inl err
           | Inr (ty, s1) \<Rightarrow>
               let s2 = DRI2SwapComplete (client c) draw
                          (sequence event) (tv_sec event) (tv_usec event) ty
                          (if client c \<noteq> None then event_complete c else None)
                          (event_data c) s1;
                   req = \<lparr>vbl_absolute = False, vbl_event = True, vbl_nextonmiss = True,
                          vbl_crtc = pipe_select (pipe c), vbl_sequence = 0,
                          vbl_signal = Some ch\<rparr>;
                   s3 = sna_wait_vblank req (vbl_chain ans) s2
               in if vbl_chain ans \<noteq> None then Inr s3
                  else sna_dri_frame_event_info_free ch s3))"

text \<open>The block \<open>if (info->chain) { ... }\<close> that the cases \<open>DRI2_SWAP_THROTTLE\<close> and
  \<open>DRI2_XCHG_THROTTLE\<close> of the handler share: the successor becomes the head of the
  chain of the front buffer and is run.\<close>

definition vblank_chain ::
  "sna_config \<Rightarrow> answers \<Rightarrow> DrawableRec \<Rightarrow> drm_event_vblank \<Rightarrow> evptr \<Rightarrow>
   sna_dri_frame_event \<Rightarrow> evptr \<Rightarrow> sna \<Rightarrow> error + sna" where
  "vblank_chain cfg ans draw event e info ch s =
     (if \<not> NDEBUG cfg \<and> priv_chain (buffers s (front_buf info)) \<noteq> Some e
      then Inl AssertFailed
      else
        (case chain_swap cfg ans draw event ch
                (upd_buffer (front_buf info) (\<lambda>p. p\<lparr>priv_chain := Some ch\<rparr>) s) of
           Inl err \<Rightarrow> Inl err
         | Inr s1 \<Rightarrow> Inr (upd_event e (\<lambda>i. i\<lparr>chain := None\<rparr>) s1)))"

text \<open>\<open>case DRI2_SWAP_THROTTLE\<close> up to its \<open>break\<close>. The result says whether the
  handler goes on to \<open>done\<close> (\<open>True\<close>) or has returned (\<open>False\<close>, the blit is still
  busy and the event was armed again).\<close>

definition vblank_SWAP_THROTTLE ::
  "sna_config \<Rightarrow> answers \<Rightarrow> DrawableRec \<Rightarrow> drm_event_vblank \<Rightarrow> evptr \<Rightarrow> sna \<Rightarrow>
   error + bool \<times> sna" where
  "vblank_SWAP_THROTTLE cfg ans draw event e s =
     (case events s e of
        None \<Rightarrow> Inl BadPointer
      | Some info \<Rightarrow>
          let postpone = (bo info \<noteq> 0 \<and> bo_busy ans \<and> bo_busy_retired ans);
              req = \<lparr>vbl_absolute = False, vbl_event = True, vbl_nextonmiss = False,
                     vbl_crtc = pipe_select (pipe info), vbl_sequence = 1,
                     vbl_signal = Some e\<rparr>;
              s1 = (if postpone then sna_wait_vblank req (vbl_postpone ans) s else s)
          in if postpone \<and> vbl_postpone ans \<noteq> None then Inr (False, s1)
             else
               (case chain info of
                  Some ch \<Rightarrow>
                    (case vblank_chain cfg ans draw event e info ch s1 of
                       Inl err \<Rightarrow> Inl err
                     | Inr s2 \<Rightarrow> Inr (True, s2))
                | None \<Rightarrow>
                    if priv_chain (buffers s1 (front_buf info)) = Some e
                    then Inr (True, upd_buffer (front_buf info) (\<lambda>p. p\<lparr>priv_chain := None\<rparr>) s1)
                    else Inr (True, DRI2SwapComplete (client info) draw
                                      (sequence event) (tv_sec event) (tv_usec event)
                                      DRI2_BLIT_COMPLETE
                                      (if client info \<noteq> None then event_complete info else None)
                                      (event_data info) s1)))"

text \<open>\<open>case DRI2_SWAP\<close>, which falls through to \<open>DRI2_SWAP_THROTTLE\<close>.\<close>

definition vblank_SWAP ::
  "sna_config \<Rightarrow> answers \<Rightarrow> DrawableRec \<Rightarrow> drm_event_vblank \<Rightarrow> evptr \<Rightarrow> sna \<Rightarrow>
   error + bool \<times> sna" where
  "vblank_SWAP cfg ans draw event e s =
     (case events s e of
        None \<Rightarrow> Inl BadPointer
      | Some info \<Rightarrow>
          let (b, s1) = sna_dri_copy_to_front ans draw
                          (priv_bo (buffers s (front_buf info)))
                          (priv_bo (buffers s (back_buf info))) True s;
              s2 = upd_event e (\<lambda>i. i\<lparr>bo := b\<rparr>) s1;
              s3 = upd_event e (\<lambda>i. i\<lparr>etype := DRI2_SWAP_THROTTLE\<rparr>) s2
          in vblank_SWAP_THROTTLE cfg ans draw event e s3)"

definition sna_dri_vblank_handler ::
  "sna_config \<Rightarrow> answers \<Rightarrow> drm_event_vblank \<Rightarrow> sna \<Rightarrow> error + sna" where
  "sna_dri_vblank_handler cfg ans event s =
     (let e = user_data event
      in case events s e of
           None \<Rightarrow> Inl BadPointer
         | Some info \<Rightarrow>
             (case (if drawable_id info \<noteq> 0 then dixLookupDrawable ans (drawable_id info)
                    else None) of
                None \<Rightarrow> sna_dri_frame_event_info_free e s
              | Some draw \<Rightarrow>
                  (case (case etype info of
                           DRI2_FLIP \<Rightarrow>
                             (if can_flip cfg s draw (front_buf info) (back_buf info)
                              then (case sna_dri_page_flip cfg ans e s of
                                      Inl err \<Rightarrow> Inl err
                                    | Inr (True, s1) \<Rightarrow>
                                        (case events s1 e of
                                           None \<Rightarrow> Inl BadPointer
                                         | Some i1 \<Rightarrow>
                                             let s2 = upd_buffer (back_buf i1)
                                                        (\<lambda>p. p\<lparr>name := nb_name (old_front i1)\<rparr>) s1;
                                                 s3 = upd_buffer (back_buf i1)
                                                        (\<lambda>p. p\<lparr>priv_bo := nb_bo (old_front i1)\<rparr>) s2;
                                                 s4 = upd_event e
                                                        (\<lambda>i. i\<lparr>old_front := (old_front i)\<lparr>nb_bo := 0\<rparr>\<rparr>) s3
                                             in Inr (False, s4))
                                    | Inr (False, s1) \<Rightarrow> vblank_SWAP cfg ans draw event e s1)
                              else vblank_SWAP cfg ans draw event e s)
                         | DRI2_SWAP \<Rightarrow> vblank_SWAP cfg ans draw event e s
                         | DRI2_SWAP_THROTTLE \<Rightarrow> vblank_SWAP_THROTTLE cfg ans draw event e s
                         | DRI2_XCHG_THROTTLE \<Rightarrow>
                             (case chain info of
                                Some ch \<Rightarrow>
                                  (case vblank_chain cfg ans draw event e info ch s of
                                     Inl err \<Rightarrow> Inl err
                                   | Inr s1 \<Rightarrow> Inr (True, s1))
                              | None \<Rightarrow>
                                  Inr (True, upd_buffer (front_buf info)
                                               (\<lambda>p. p\<lparr>priv_chain := None\<rparr>) s))
                         | DRI2_WAITMSC \<Rightarrow>
                             Inr (True,
                                  case client info of
                                    Some c \<Rightarrow> emit (WaitMSCComplete c (draw_id draw)
                                                (sequence event) (tv_sec event) (tv_usec event)) s
                                  | None \<Rightarrow> s)
                         | _ \<Rightarrow> Inr (True, emit Warning s))
                   of
                     Inl err \<Rightarrow> Inl err
                   | Inr (False, s1) \<Rightarrow> Inr s1
                   | Inr (True, s1) \<Rightarrow> sna_dri_frame_event_info_free e s1)))"

section \<open>Page-flip completion\<close>




section \<open>Scheduling a swap\<close>

text \<open>\<open>sna_dri_add_frame_event\<close>: the event joins the list of its client and the list
  of its drawable; either \<open>get_resource\<close> may fail.\<close>

definition sna_dri_add_frame_event :: "answers \<Rightarrow> evptr \<Rightarrow> sna \<Rightarrow> error + bool \<times> sna" where
  "sna_dri_add_frame_event ans e s =
     (case events s e of
        None \<Rightarrow> Inl BadPointer
      | Some info \<Rightarrow>
          (case client info of
             None \<Rightarrow> Inl BadPointer
           | Some c \<Rightarrow>
               if \<not> client_resource_ok ans then Inr (False, s)
               else
                 let s1 = s\<lparr>client_resource := (client_resource s)(c := e # client_resource s c)\<rparr>
                 in if \<not> drawable_resource_ok ans then Inr (False, list_del_client e s1)
                    else Inr (True, s1\<lparr>drawable_resource :=
                                 (drawable_resource s1)
                                   (drawable_id info := e # drawable_resource s1 (drawable_id info))\<rparr>)))"

text \<open>The cleanup callbacks of the two resource types: while the list is not empty,
  its first event is taken off it and loses its client, or its drawable.\<close>

function client_gone_loop :: "ClientPtr \<Rightarrow> sna \<Rightarrow> sna" where
  "client_gone_loop c s =
     (case client_resource s c of
        [] \<Rightarrow> s
      | e # es \<Rightarrow> client_gone_loop c (upd_event e (\<lambda>i. i\<lparr>client := None\<rparr>) (list_del_client e s)))"
  by pat_completeness auto
termination
  by (relation "measure (\<lambda>(c, s). length (client_resource s c))")
     (auto simp: upd_event_def list_del_client_def less_Suc_eq_le)

definition sna_dri_frame_event_client_gone :: "ClientPtr \<Rightarrow> sna \<Rightarrow> sna" where
  "sna_dri_frame_event_client_gone c s = client_gone_loop c s"

function drawable_gone_loop :: "XID \<Rightarrow> sna \<Rightarrow> sna" where
  "drawable_gone_loop d s =
     (case drawable_resource s d of
        [] \<Rightarrow> s
      | e # es \<Rightarrow> drawable_gone_loop d (upd_event e (\<lambda>i. i\<lparr>drawable_id := 0\<rparr>) (list_del_drawable e s)))"
  by pat_completeness auto
termination
  by (relation "measure (\<lambda>(d, s). length (drawable_resource s d))")
     (auto simp: upd_event_def list_del_drawable_def less_Suc_eq_le)

definition sna_dri_frame_event_drawable_gone :: "XID \<Rightarrow> sna \<Rightarrow> sna" where
  "sna_dri_frame_event_drawable_gone d s = drawable_gone_loop d s"

definition sna_dri_immediate_xchg ::
  "sna_config \<Rightarrow> answers \<Rightarrow> DrawableRec \<Rightarrow> evptr \<Rightarrow> sna \<Rightarrow> error + sna" where
  "sna_dri_immediate_xchg cfg ans draw e s =
     (case events s e of
        None \<Rightarrow> Inl BadPointer
      | Some info \<Rightarrow>
          if \<not> SNA_NO_WAIT cfg then
            let s1 = upd_event e (\<lambda>i. i\<lparr>etype := DRI2_XCHG_THROTTLE\<rparr>) s
            in (case priv_chain (buffers s1 (front_buf info)) of
                  None \<Rightarrow>
                    (case sna_dri_exchange_buffers cfg draw (front_buf info) (back_buf info) s1 of
                       Inl err \<Rightarrow> Inl err
                     | Inr s2 \<Rightarrow>
                         let s3 = DRI2SwapComplete (client info) draw 0 0 0
                                    DRI2_EXCHANGE_COMPLETE (event_complete info) (event_data info) s2;
                             req = \<lparr>vbl_absolute = False, vbl_event = True, vbl_nextonmiss = True,
                                    vbl_crtc = pipe_select (pipe info), vbl_sequence = 0,
                                    vbl_signal = Some e\<rparr>;
                             s4 = sna_wait_vblank req (vbl_arm ans) s3
                         in if vbl_arm ans \<noteq> None
                            then Inr (upd_buffer (front_buf info) (\<lambda>p. p\<lparr>priv_chain := Some e\<rparr>) s4)
                            else sna_dri_frame_event_info_free e s4)
                | Some h \<Rightarrow>
                    (case events s1 h of
                       None \<Rightarrow> Inl BadPointer
                     | Some hi \<Rightarrow>
                         if \<not> NDEBUG cfg \<and> chain hi \<noteq> None then Inl AssertFailed
                         else Inr (upd_event h (\<lambda>i. i\<lparr>chain := Some e\<rparr>) s1)))
          else
            (case sna_dri_exchange_buffers cfg draw (front_buf info) (back_buf info) s of
               Inl err \<Rightarrow> Inl err
             | Inr s1 \<Rightarrow>
                 sna_dri_frame_event_info_free e
                   (DRI2SwapComplete (client info) draw 0 0 0
                      DRI2_EXCHANGE_COMPLETE (event_complete info) (event_data info) s1)))"

definition sna_dri_immediate_blit ::
  "sna_config \<Rightarrow> answers \<Rightarrow> DrawableRec \<Rightarrow> evptr \<Rightarrow> sna \<Rightarrow> error + sna" where
  "sna_dri_immediate_blit cfg ans draw e s =
     (case events s e of
        None \<Rightarrow> Inl BadPointer
      | Some info \<Rightarrow>
          if \<not> SNA_NO_WAIT cfg then
            let s1 = upd_event e (\<lambda>i. i\<lparr>etype := DRI2_SWAP_THROTTLE\<rparr>) s
            in (case priv_chain (buffers s1 (front_buf info)) of
                  None \<Rightarrow>
                    let (b, s2) = sna_dri_copy_to_front ans draw
                                    (priv_bo (buffers s1 (front_buf info)))
                                    (priv_bo (buffers s1 (back_buf info))) True s1;
                        s3 = upd_event e (\<lambda>i. i\<lparr>bo := b\<rparr>) s2;
                        s4 = DRI2SwapComplete (client info) draw 0 0 0
                               DRI2_BLIT_COMPLETE (event_complete info) (event_data info) s3;
                        req = \<lparr>vbl_absolute = False, vbl_event = True, vbl_nextonmiss = True,
                               vbl_crtc = pipe_select (pipe info), vbl_sequence = 0,
                               vbl_signal = Some e\<rparr>;
                        s5 = sna_wait_vblank req (vbl_arm ans) s4
                    in if vbl_arm ans \<noteq> None
                       then Inr (upd_buffer (front_buf info) (\<lambda>p. p\<lparr>priv_chain := Some e\<rparr>) s5)
                       else sna_dri_frame_event_info_free e s5
                | Some h \<Rightarrow>
                    (case events s1 h of
                       None \<Rightarrow> Inl BadPointer
                     | Some hi \<Rightarrow>
                         if \<not> NDEBUG cfg \<and> chain hi \<noteq> None then Inl AssertFailed
                         else Inr (upd_event h (\<lambda>i. i\<lparr>chain := Some e\<rparr>) s1)))
          else
            let (b, s1) = sna_dri_copy_to_front ans draw
                            (priv_bo (buffers s (front_buf info)))
                            (priv_bo (buffers s (back_buf info))) True s;
                s2 = upd_event e (\<lambda>i. i\<lparr>bo := b\<rparr>) s1
            in sna_dri_frame_event_info_free e
                 (DRI2SwapComplete (client info) draw 0 0 0
                    DRI2_BLIT_COMPLETE (event_complete info) (event_data info) s2))"

text \<open>The block that every scheduling path repeats: \<open>calloc\<close>, the fields of the
  request, \<open>sna_dri_add_frame_event\<close> (the event is freed when that fails), and a
  reference on both buffers.\<close>

definition new_frame_event ::
  "answers \<Rightarrow> frame_event_type \<Rightarrow> ClientPtr \<Rightarrow> DrawableRec \<Rightarrow> bufptr \<Rightarrow> bufptr \<Rightarrow> int \<Rightarrow>
   nat option \<Rightarrow> nat \<Rightarrow> sna \<Rightarrow> error + evptr option \<times> sna" where
  "new_frame_event ans ty c draw front back p func dat s =
     (case calloc ans s of
        (None, s1) \<Rightarrow> Inr (None, s1)
      | (Some e, s1) \<Rightarrow>
          let s2 = upd_event e (\<lambda>i. i\<lparr>etype := ty, drawable_id := draw_id draw, client := Some c,
                                     event_complete := func, event_data := dat,
                                     front_buf := front, back_buf := back, pipe := p\<rparr>) s1
          in (case sna_dri_add_frame_event ans e s2 of
                Inl err \<Rightarrow> Inl err
              | Inr (False, s3) \<Rightarrow> Inr (None, free_event e s3)
              | Inr (True, s3) \<Rightarrow>
                  Inr (Some e, sna_dri_reference_buffer back (sna_dri_reference_buffer front s3))))"

text \<open>The deadline of the two divisor paths, as assigned to the 32-bit
  \<open>vbl.request.sequence\<close> from 64-bit operands: \<open>sna_dri_schedule_flip\<close> moves on by
  one period when the value is not beyond the current count (\<open><=\<close>),
  \<open>sna_dri_schedule_swap\<close> when it is before it (\<open><\<close>).\<close>

definition flip_deadline :: "64 word \<Rightarrow> 64 word \<Rightarrow> 64 word \<Rightarrow> 32 word" where
  "flip_deadline current_msc divisor remainder =
     (let seq = (ucast (current_msc - current_msc mod divisor + remainder) :: 32 word)
      in if (ucast seq :: 64 word) \<le> current_msc then seq + ucast divisor else seq)"

definition swap_deadline :: "64 word \<Rightarrow> 64 word \<Rightarrow> 64 word \<Rightarrow> 32 word" where
  "swap_deadline current_msc divisor remainder =
     (let seq = (ucast (current_msc - current_msc mod divisor + remainder) :: 32 word)
      in if (ucast seq :: 64 word) < current_msc then seq + ucast divisor else seq)"

text \<open>The rest of the branch \<open>divisor == 0\<close> of \<open>sna_dri_schedule_flip\<close>, once the
  type of the new event is known.\<close>

definition flip_immediate ::
  "sna_config \<Rightarrow> answers \<Rightarrow> frame_event_type \<Rightarrow> ClientPtr \<Rightarrow> DrawableRec \<Rightarrow> bufptr \<Rightarrow> bufptr \<Rightarrow>
   int \<Rightarrow> nat option \<Rightarrow> nat \<Rightarrow> sna \<Rightarrow> error + bool \<times> sna" where
  "flip_immediate cfg ans ty c draw front back p func dat s =
     (case new_frame_event ans ty c draw front back p func dat s of
        Inl err \<Rightarrow> Inl err
      | Inr (None, s1) \<Rightarrow> Inr (False, s1)
      | Inr (Some e, s1) \<Rightarrow>
          (case sna_dri_page_flip cfg ans e s1 of
             Inl err \<Rightarrow> Inl err
           | Inr (False, s2) \<Rightarrow>
               (case sna_dri_frame_event_info_free e s2 of
                  Inl err \<Rightarrow> Inl err
                | Inr s3 \<Rightarrow> Inr (False, s3))
           | Inr (True, s2) \<Rightarrow>
               let s3 = upd_buffer back (\<lambda>q. q\<lparr>priv_bo := create_2d ans\<rparr>) s2;
                   s4 = upd_buffer back (\<lambda>q. q\<lparr>name := flink ans\<rparr>) s3;
                   s5 = s4\<lparr>flip_pending := Some e\<rparr>
               in Inr (True, DRI2SwapComplete (Some c) draw 0 0 0
                               DRI2_EXCHANGE_COMPLETE func dat s5)))"

text \<open>\<open>sna_dri_schedule_flip\<close>; the result carries \<open>*target_msc\<close>. \<open>drmVBlank\<close> is a
  union, so the \<open>vbl.reply.sequence\<close> read before the second ioctl is the
  \<open>vbl.request.sequence\<close> just computed.\<close>

definition sna_dri_schedule_flip ::
  "sna_config \<Rightarrow> answers \<Rightarrow> ClientPtr \<Rightarrow> DrawableRec \<Rightarrow> bufptr \<Rightarrow> bufptr \<Rightarrow>
   64 word \<Rightarrow> 64 word \<Rightarrow> 64 word \<Rightarrow> nat option \<Rightarrow> nat \<Rightarrow> sna \<Rightarrow> error + bool \<times> 64 word \<times> sna" where
  "sna_dri_schedule_flip cfg ans c draw front back target_msc divisor0 remainder0 func dat s =
     (let p = sna_dri_get_pipe draw
      in if p = - 1 then Inr (False, target_msc, s)
         else
           let divisor = divisor0 AND 0xffffffff
           in if divisor = 0 then
                (let now = (\<lambda>ty. case flip_immediate cfg ans ty c draw front back p func dat s of
                                    Inl err \<Rightarrow> Inl err
                                  | Inr (r, s1) \<Rightarrow> Inr (r, target_msc, s1))
                 in case flip_pending s of
                      None \<Rightarrow> now DRI2_FLIP_THROTTLE
                    | Some pend \<Rightarrow>
                        (case events s pend of
                           None \<Rightarrow> Inl BadPointer
                         | Some pinfo \<Rightarrow>
                             if drawable_id pinfo = draw_id draw
                             then Inr (True, target_msc,
                                       upd_event pend
                                         (\<lambda>i. i\<lparr>next_front := (next_front i)\<lparr>nb_name := 1\<rparr>\<rparr>) s)
                             else now DRI2_FLIP))
              else
                (case new_frame_event ans DRI2_FLIP c draw front back p func dat s of
                   Inl err \<Rightarrow> Inl err
                 | Inr (None, s1) \<Rightarrow> Inr (False, target_msc, s1)
                 | Inr (Some e, s1) \<Rightarrow>
                     let q = \<lparr>vbl_absolute = False, vbl_event = False, vbl_nextonmiss = False,
                              vbl_crtc = pipe_select p, vbl_sequence = 0, vbl_signal = None\<rparr>;
                         s2 = sna_wait_vblank q (vbl_query ans) s1
                     in (case vbl_query ans of
                           None \<Rightarrow>
                             (case sna_dri_frame_event_info_free e s2 of
                                Inl err \<Rightarrow> Inl err
                              | Inr s3 \<Rightarrow> Inr (False, target_msc, s3))
                         | Some cur \<Rightarrow>
                             let current_msc = (ucast cur :: 64 word);
                                 target = target_msc AND 0xffffffff;
                                 remainder = remainder0 AND 0xffffffff;
                                 seq = (if current_msc < target then (ucast target :: 32 word)
                                        else flip_deadline current_msc divisor remainder);
                                 target' = (if current_msc < target then target
                                            else (ucast (seq + 1) :: 64 word));
                                 req = \<lparr>vbl_absolute = True, vbl_event = True,
                                        vbl_nextonmiss = False, vbl_crtc = pipe_select p,
                                        vbl_sequence = seq - 1, vbl_signal = Some e\<rparr>;
                                 s3 = sna_wait_vblank req (vbl_arm ans) s2
                             in (case vbl_arm ans of
                                   None \<Rightarrow>
                                     (case sna_dri_frame_event_info_free e s3 of
                                        Inl err \<Rightarrow> Inl err
                                      | Inr s4 \<Rightarrow> Inr (False, target', s4))
                                 | Some r \<Rightarrow>
                                     Inr (True, target',
                                          upd_event e (\<lambda>i. i\<lparr>frame := ucast target'\<rparr>) s3)))))"

text \<open>The label \<open>blit_fallback\<close> of \<open>sna_dri_schedule_swap\<close>.\<close>

definition blit_fallback ::
  "sna_config \<Rightarrow> answers \<Rightarrow> ClientPtr \<Rightarrow> DrawableRec \<Rightarrow> bufptr \<Rightarrow> bufptr \<Rightarrow>
   nat option \<Rightarrow> nat \<Rightarrow> evptr option \<Rightarrow> sna \<Rightarrow> error + bool \<times> 64 word \<times> sna" where
  "blit_fallback cfg ans c draw front back func dat info s =
     (case (if can_exchange cfg s draw front back
            then (case sna_dri_exchange_buffers cfg draw front back s of
                    Inl err \<Rightarrow> Inl err
                  | Inr s1 \<Rightarrow> Inr (DRI2_EXCHANGE_COMPLETE, s1))
            else Inr (DRI2_BLIT_COMPLETE,
                      snd (sna_dri_copy_to_front ans draw
                             (priv_bo (buffers s front)) (priv_bo (buffers s back)) False s)))
      of
        Inl err \<Rightarrow> Inl err
      | Inr (ty, s1) \<Rightarrow>
          (case (case info of
                   None \<Rightarrow> Inr s1
                 | Some e \<Rightarrow> sna_dri_frame_event_info_free e s1) of
             Inl err \<Rightarrow> Inl err
           | Inr s2 \<Rightarrow> Inr (True, 0, DRI2SwapComplete (Some c) draw 0 0 0 ty func dat s2)))"

text \<open>\<open>sna_dri_schedule_swap\<close>; the result carries \<open>*target_msc\<close>.\<close>

definition sna_dri_schedule_swap ::
  "sna_config \<Rightarrow> answers \<Rightarrow> ClientPtr \<Rightarrow> DrawableRec \<Rightarrow> bufptr \<Rightarrow> bufptr \<Rightarrow>
   64 word \<Rightarrow> 64 word \<Rightarrow> 64 word \<Rightarrow> nat option \<Rightarrow> nat \<Rightarrow> sna \<Rightarrow> error + bool \<times> 64 word \<times> sna" where
  "sna_dri_schedule_swap cfg ans c draw front back target_msc divisor0 remainder0 func dat s =
     (if can_flip cfg s draw front back then
        (case sna_dri_schedule_flip cfg ans c draw front back target_msc divisor0 remainder0
                func dat s of
           Inl err \<Rightarrow> Inl err
         | Inr (True, t, s1) \<Rightarrow> Inr (True, t, s1)
         | Inr (False, t, s1) \<Rightarrow> blit_fallback cfg ans c draw front back func dat None s1)
      else
        let p = sna_dri_get_pipe draw
        in if p = - 1 then
             (if can_exchange cfg s draw front back then
                (case sna_dri_exchange_buffers cfg draw front back s of
                   Inl err \<Rightarrow> Inl err
                 | Inr s1 \<Rightarrow>
                     Inr (True, target_msc,
                          DRI2SwapComplete (Some c) draw 0 0 0 DRI2_EXCHANGE_COMPLETE func dat s1))
              else blit_fallback cfg ans c draw front back func dat None s)
           else
             let target = target_msc AND 0xffffffff;
                 divisor = divisor0 AND 0xffffffff;
                 remainder = remainder0 AND 0xffffffff
             in (case new_frame_event ans DRI2_SWAP c draw front back p func dat s of
                   Inl err \<Rightarrow> Inl err
                 | Inr (None, s1) \<Rightarrow> blit_fallback cfg ans c draw front back func dat None s1
                 | Inr (Some e, s1) \<Rightarrow>
                     if divisor = 0 then
                       (case (if can_exchange cfg s1 draw front back
                              then sna_dri_immediate_xchg cfg ans draw e s1
                              else sna_dri_immediate_blit cfg ans draw e s1) of
                          Inl err \<Rightarrow> Inl err
                        | Inr s2 \<Rightarrow> Inr (True, target, s2))
                     else
                       let q = \<lparr>vbl_absolute = False, vbl_event = False, vbl_nextonmiss = False,
                                vbl_crtc = pipe_select p, vbl_sequence = 0, vbl_signal = None\<rparr>;
                           s2 = sna_wait_vblank q (vbl_query ans) s1
                       in (case vbl_query ans of
                             None \<Rightarrow> blit_fallback cfg ans c draw front back func dat (Some e) s2
                           | Some cur \<Rightarrow>
                               let current_msc = (ucast cur :: 64 word)
                               in if current_msc < target then
                                    let s3 = upd_event e (\<lambda>i. i\<lparr>frame := ucast target\<rparr>) s2;
                                        s4 = upd_event e (\<lambda>i. i\<lparr>etype := DRI2_SWAP\<rparr>) s3;
                                        req = \<lparr>vbl_absolute = True, vbl_event = True,
                                               vbl_nextonmiss = False, vbl_crtc = pipe_select p,
                                               vbl_sequence = ucast target, vbl_signal = Some e\<rparr>;
                                        s5 = sna_wait_vblank req (vbl_arm ans) s4
                                    in (case vbl_arm ans of
                                          None \<Rightarrow> blit_fallback cfg ans c draw front back func dat
                                                    (Some e) s5
                                        | Some r \<Rightarrow> Inr (True, target, s5))
                                  else
                                    let req = \<lparr>vbl_absolute = True, vbl_event = True,
                                               vbl_nextonmiss = True, vbl_crtc = pipe_select p,
                                               vbl_sequence =
                                                 swap_deadline current_msc divisor remainder - 1,
                                               vbl_signal = Some e\<rparr>;
                                        s3 = sna_wait_vblank req (vbl_arm ans) s2
                                    in (case vbl_arm ans of
                                          None \<Rightarrow> blit_fallback cfg ans c draw front back func dat
                                                    (Some e) s3
                                        | Some r \<Rightarrow>
                                            Inr (True, ucast r,
                                                 upd_event e (\<lambda>i. i\<lparr>frame := r\<rparr>) s3)))))"

section \<open>Bitmap to region (src/sna/fb/fbbitmap.c)\<close>

text \<open>The macros of \<open>fb.h\<close> that the function uses, for the little-endian machine with
  \<open>LSBFirst\<close> bitmaps that the driver is built for: an \<open>FbBits\<close> is a 32-bit word, and
  the leftmost pixel of a word is its lowest bit.\<close>

definition FB_SHIFT :: nat where
  "FB_SHIFT = 5"

definition FB_UNIT :: nat where
  "FB_UNIT = 32"

definition FB_MASK :: nat where
  "FB_MASK = 31"

definition FB_ALLONES :: "32 word" where
  "FB_ALLONES = - 1"

definition FbScrLeft :: "32 word \<Rightarrow> nat \<Rightarrow> 32 word" where
  "FbScrLeft x n = drop_bit n x"

definition FbScrRight :: "32 word \<Rightarrow> nat \<Rightarrow> 32 word" where
  "FbScrRight x n = push_bit n x"

definition mask0 :: "32 word" where
  "mask0 = FB_ALLONES AND NOT (FbScrRight FB_ALLONES 1)"

text \<open>What the function reads of the pixmap: its size, \<open>devKind\<close> (bytes per row) and
  the memory at \<open>devPrivate.ptr\<close>, addressed in words.\<close>

record bitmap =
  bm_width :: nat
  bm_height :: nat
  devKind :: nat
  bits :: "nat \<Rightarrow> 32 word"

text \<open>A value passed as, or stored in, an \<open>int16_t\<close>.\<close>

definition int16 :: "int \<Rightarrow> int" where
  "int16 v = sint (word_of_int v :: 16 word)"

definition add :: "RegionRec \<Rightarrow> int \<Rightarrow> int \<Rightarrow> int \<Rightarrow> int \<Rightarrow> RegionRec" where
  "add region x1 y1 x2 y2 =
     (let r = \<lparr>box_x1 = int16 x1, box_y1 = int16 y1, box_x2 = int16 x2, box_y2 = int16 y2\<rparr>;
          rs = (case data region of None \<Rightarrow> [] | Some l \<Rightarrow> l) @ [r];
          e1 = (if int16 x1 < box_x1 (extents region)
                then (extents region)\<lparr>box_x1 := int16 x1\<rparr> else extents region);
          e2 = (if int16 x2 > box_x2 e1 then e1\<lparr>box_x2 := int16 x2\<rparr> else e1)
      in region\<lparr>extents := e2, data := Some rs\<rparr>)"

text \<open>Byte \<open>k\<close> of the memory, and \<open>memcmp(a, b, n) == 0\<close> on two word addresses.\<close>

definition byte_at :: "(nat \<Rightarrow> 32 word) \<Rightarrow> nat \<Rightarrow> 8 word" where
  "byte_at mem k = ucast (drop_bit (8 * (k mod 4)) (mem (k div 4)))"

definition memcmp_eq :: "(nat \<Rightarrow> 32 word) \<Rightarrow> nat \<Rightarrow> nat \<Rightarrow> nat \<Rightarrow> bool" where
  "memcmp_eq mem a b n = list_all (\<lambda>k. byte_at mem (4 * a + k) = byte_at mem (4 * b + k)) [0..<n]"

text \<open>The inner \<open>for (i = 0; i < n; i++)\<close> over the pixels of one word: \<open>pos\<close> is
  \<open>base + i\<close>.\<close>

fun scan_bits ::
  "nat \<Rightarrow> int \<Rightarrow> 32 word \<Rightarrow> int \<Rightarrow> int \<Rightarrow> int \<Rightarrow> RegionRec \<Rightarrow> int \<times> RegionRec" where
  "scan_bits 0 pos w x1 y1 y2 region = (x1, region)"
| "scan_bits (Suc n) pos w x1 y1 y2 region =
     (if w AND mask0 \<noteq> 0
      then scan_bits n (pos + 1) (FbScrLeft w 1) (if x1 < 0 then pos else x1) y1 y2 region
      else if x1 \<ge> 0
      then scan_bits n (pos + 1) (FbScrLeft w 1) (- 1) y1 y2 (add region x1 y1 pos y2)
      else scan_bits n (pos + 1) (FbScrLeft w 1) x1 y1 y2 region)"

text \<open>The loop over the words that lie fully in the pixmap.\<close>

fun scan_words ::
  "(nat \<Rightarrow> 32 word) \<Rightarrow> nat \<Rightarrow> nat \<Rightarrow> int \<Rightarrow> int \<Rightarrow> int \<Rightarrow> int \<Rightarrow> RegionRec \<Rightarrow> int \<times> RegionRec" where
  "scan_words mem 0 addr base x1 y1 y2 region = (x1, region)"
| "scan_words mem (Suc n) addr base x1 y1 y2 region =
     (let w = mem addr
      in if (if x1 < 0 then NOT w = 0 else w = 0)
         then scan_words mem n (addr + 1) (base + int FB_UNIT) x1 y1 y2 region
         else (case scan_bits FB_UNIT base w x1 y1 y2 region of
                 (x1', region') \<Rightarrow>
                   scan_words mem n (addr + 1) (base + int FB_UNIT) x1' y1 y2 region'))"

text \<open>How many of the rows from \<open>y2\<close> on repeat row \<open>y1\<close>.\<close>

function same_rows :: "bitmap \<Rightarrow> nat \<Rightarrow> nat \<Rightarrow> nat \<Rightarrow> nat" where
  "same_rows pm stride y1 y2 =
     (if y2 < bm_height pm \<and>
         memcmp_eq (bits pm) (y1 * stride) (y2 * stride) (drop_bit 3 (bm_width pm + 7))
      then Suc (same_rows pm stride y1 (Suc y2)) else 0)"
  by pat_completeness auto
termination
  by (relation "measure (\<lambda>(pm, stride, y1, y2). bm_height pm - y2)") auto

function rows_loop :: "bitmap \<Rightarrow> nat \<Rightarrow> RegionRec \<Rightarrow> RegionRec" where
  "rows_loop pm y region =
     (if y < bm_height pm then
        let stride = drop_bit (FB_SHIFT - 3) (devKind pm);
            y1 = y;
            y2 = Suc y + same_rows pm stride y (Suc y);
            row = y1 * stride;
            x1 = (if bits pm row AND mask0 \<noteq> 0 then 0 else - 1);
            nw = drop_bit FB_SHIFT (bm_width pm);
            (x1a, r1) = scan_words (bits pm) nw row 0 x1 (int y1) (int y2) region;
            (x1b, r2) = (if and (bm_width pm) FB_MASK \<noteq> 0
                         then scan_bits (and (bm_width pm) FB_MASK) (int (nw * FB_UNIT))
                                (bits pm (row + nw)) x1a (int y1) (int y2) r1
                         else (x1a, r1));
            r3 = (if x1b \<ge> 0 then add r2 x1b (int y1) (int (bm_width pm)) (int y2) else r2)
        in rows_loop pm y2 r3
      else region)"
  by pat_completeness auto
termination
  apply (relation "measure (\<lambda>(pm, y, region). bm_height pm - y)")
   apply simp
  apply (simp only: in_measure prod.case)
  done

text \<open>\<open>fbBitmapToRegion\<close>; the first argument says whether \<open>RegionCreate\<close> succeeded.\<close>

definition fbBitmapToRegion :: "bool \<Rightarrow> bitmap \<Rightarrow> RegionRec option" where
  "fbBitmapToRegion created pm =
     (if \<not> created then None
      else
        let r0 = \<lparr>extents = \<lparr>box_x1 = int16 (int (bm_width pm)), box_y1 = 0, box_x2 = 0, box_y2 = 0\<rparr>,
                  data = Some []\<rparr>;
            r = rows_loop pm 0 r0
        in (case data r of
              Some (b # bs) \<Rightarrow>
                let r' = r\<lparr>extents := (extents r)\<lparr>box_y1 := box_y1 b, box_y2 := box_y2 (last (b # bs))\<rparr>\<rparr>
                in Some (if bs = [] then r'\<lparr>data := None\<rparr> else r')
            | _ \<Rightarrow> Some (r\<lparr>extents := (extents r)\<lparr>box_x1 := 0, box_x2 := 0\<rparr>\<rparr>)))"

text \<open>The rectangles of a region, whether a pixel lies in it, and whether the bitmap has
  the pixel set.\<close>

definition region_rects :: "RegionRec \<Rightarrow> BoxRec list" where
  "region_rects r = (case data r of None \<Rightarrow> [extents r] | Some l \<Rightarrow> l)"

definition in_box :: "BoxRec \<Rightarrow> int \<Rightarrow> int \<Rightarrow> bool" where
  "in_box b x y = (box_x1 b \<le> x \<and> x < box_x2 b \<and> box_y1 b \<le> y \<and> y < box_y2 b)"

definition in_region :: "RegionRec \<Rightarrow> int \<Rightarrow> int \<Rightarrow> bool" where
  "in_region r x y = list_ex (\<lambda>b. in_box b x y) (region_rects r)"

definition pixel_set :: "bitmap \<Rightarrow> nat \<Rightarrow> nat \<Rightarrow> bool" where
  "pixel_set pm x y =
     bit (bits pm (y * drop_bit (FB_SHIFT - 3) (devKind pm) + x div FB_UNIT)) (x mod FB_UNIT)"

text \<open>A bitmap of one row of 64 pixels, the left 32 clear and the right 32 set.\<close>

definition right_half_bitmap :: bitmap where
  "right_half_bitmap =
     \<lparr>bm_width = 64, bm_height = 1, devKind = 8,
      bits = (\<lambda>a. if a = 1 then - 1 else 0)\<rparr>"

section \<open>Runs\<close>


text \<open>The time that a series of completion events leaves cached in a frame event: that
  of the last event whose \<open>user_data\<close> has bit 0 set.\<close>

fun cache_time :: "drm_event_vblank list \<Rightarrow> sna_dri_frame_event \<Rightarrow> sna_dri_frame_event" where
  "cache_time [] i = i"
| "cache_time (ev # evs) i =
     cache_time evs (if user_data_bit0 ev
                     then i\<lparr>fe_frame := sequence ev, fe_tv_sec := tv_sec ev,
                           fe_tv_usec := tv_usec ev\<rparr>
                     else i)"

section \<open>Example states\<close>

text \<open>A driver with no frame event in flight: a front buffer (1, on buffer object 11,
  attached to pixmap 1) and a back buffer (2, on buffer object 12) of a window that
  covers the whole 16 by 16 scanout pixmap.\<close>

definition idle_sna :: sna where
  "idle_sna =
     \<lparr>events = (\<lambda>_. None), next_event = 1,
      buffers = (\<lambda>_. \<lparr>attachment = 1, name = 0, format = 0, refcnt = 1, pixmap = 0,
                        priv_bo = 0, priv_chain = None\<rparr>)
        (1 := \<lparr>attachment = 0, name = 101, format = 0, refcnt = 1, pixmap = 1,
               priv_bo = 11, priv_chain = None\<rparr>,
         2 := \<lparr>attachment = 1, name = 102, format = 0, refcnt = 1, pixmap = 0,
               priv_bo = 12, priv_chain = None\<rparr>),
      bos = (\<lambda>_. \<lparr>bo_refcnt = 2, tiling = 1, pitch = 64, bo_size = 65536\<rparr>),
      pixmaps = (\<lambda>_. \<lparr>pix_width = 16, pix_height = 16, screen_x = 0, screen_y = 0,
                        gpu_bo = 11\<rparr>),
      flip_pending = None, client_resource = (\<lambda>_. []), drawable_resource = (\<lambda>_. []),
      vblank_queue = [], msc_warn_limit = 5, log = []\<rparr>"

definition screen_box :: BoxRec where
  "screen_box = \<lparr>box_x1 = 0, box_y1 = 0, box_x2 = 16, box_y2 = 16\<rparr>"

definition fullscreen_window :: DrawableRec where
  "fullscreen_window =
     \<lparr>draw_type = DRAWABLE_WINDOW, draw_id = 7, draw_x = 0, draw_y = 0, draw_width = 16,
      draw_height = 16, bitsPerPixel = 32, draw_pixmap = 1,
      clipList = \<lparr>extents = screen_box, data = None\<rparr>,
      root_winSize = \<lparr>extents = screen_box, data = None\<rparr>, covering_crtc = Some 0,
      clip_visible = True\<rparr>"

definition default_config :: sna_config where
  "default_config =
     \<lparr>vtSema = True, SNA_NO_FLIP = False, SNA_NO_WAIT = False, shadow_active = False,
      sna_front = 1, COMPOSITE = True, NDEBUG = False\<rparr>"

text \<open>Collaborators that grant everything; the frame counter stands at 100.\<close>

definition ok_answers :: answers where
  "ok_answers =
     \<lparr>dixLookupDrawable = (\<lambda>i. if i = 7 then Some fullscreen_window else None),
      calloc_ok = True, client_resource_ok = True, drawable_resource_ok = True,
      vbl_query = Some 100, vbl_arm = Some 100, vbl_postpone = Some 100, vbl_chain = Some 100,
      page_flip_count = 1, copy_bo = 0, bo_busy = False, bo_busy_retired = False,
      create_2d = 13, flink = 103\<rparr>"


definition flip_done :: drm_event_vblank where
  "flip_done = \<lparr>user_data = 1, user_data_bit0 = True, sequence = 101, tv_sec = 5, tv_usec = 6\<rparr>"

text \<open>A swap of the window that waits for its vertical blank: the frame event is on
  the list of client 3 and on the list of drawable 7.\<close>

definition waiting_sna :: sna where
  "waiting_sna =
     idle_sna\<lparr>events := (events idle_sna)(1 := Some (calloc_event\<lparr>drawable_id := 7, client := Some 3,
                  etype := DRI2_SWAP, event_complete := Some 9, event_data := 42,
                  front_buf := 1, back_buf := 2\<rparr>)),
              next_event := 2,
              client_resource := (client_resource idle_sna)(3 := [1]),
              drawable_resource := (drawable_resource idle_sna)(7 := [1]),
              vblank_queue := [1]\<rparr>"

section \<open>Reading the calls made\<close>

text \<open>The notifications sent to the client-notification collaborator, and the
  vertical-blank ioctls issued, in order.\<close>

fun is_notification :: "effect \<Rightarrow> bool" where
  "is_notification (SwapComplete c d frm sec usec ty func dat) = True"
| "is_notification (WaitMSCComplete c d frm sec usec) = True"
| "is_notification _ = False"

fun is_vblank :: "effect \<Rightarrow> bool" where
  "is_vblank (WaitVBlank req reply) = True"
| "is_vblank _ = False"

definition notifications :: "sna \<Rightarrow> effect list" where
  "notifications s = filter is_notification (log s)"

definition vblanks :: "sna \<Rightarrow> effect list" where
  "vblanks s = filter is_vblank (log s)"

text \<open>The calls that failed (an allocation that returned \<open>NULL\<close>, a vertical-blank
  ioctl that returned an error), and the copies handed to the GPU.\<close>

fun is_failure :: "effect \<Rightarrow> bool" where
  "is_failure (Calloc None) = True"
| "is_failure (WaitVBlank req None) = True"
| "is_failure _ = False"

fun is_copy :: "effect \<Rightarrow> bool" where
  "is_copy (CopyToFront d dst src sync) = True"
| "is_copy _ = False"

definition failures :: "sna \<Rightarrow> effect list" where
  "failures s = filter is_failure (log s)"

definition copies :: "sna \<Rightarrow> effect list" where
  "copies s = filter is_copy (log s)"

text \<open>The copy that \<open>sna_dri_copy_to_front\<close> issues for a drawable (none when all is
  clipped), the buffer object it returns, and a state with further calls made.\<close>

definition copy_issued :: "DrawableRec \<Rightarrow> boptr \<Rightarrow> boptr \<Rightarrow> bool \<Rightarrow> effect list" where
  "copy_issued draw dst src sync =
     (if all_clipped draw then [] else [CopyToFront (draw_id draw) dst src sync])"

definition copy_returned :: "answers \<Rightarrow> DrawableRec \<Rightarrow> bool \<Rightarrow> boptr" where
  "copy_returned ans draw sync =
     (if \<not> all_clipped draw \<and> sync \<and> draw_type draw \<noteq> DRAWABLE_PIXMAP then copy_bo ans else 0)"

definition emits :: "effect list \<Rightarrow> sna \<Rightarrow> sna" where
  "emits xs s = s\<lparr>log := log s @ xs\<rparr>"

section \<open>Relations between states\<close>

text \<open>What the assertions of \<open>sna_dri_exchange_buffers\<close> ask of a buffer: its buffer
  object holds the rows of the pixmap of the drawable.\<close>

definition fits :: "sna \<Rightarrow> DrawableRec \<Rightarrow> bufptr \<Rightarrow> bool" where
  "fits s draw b =
     (pix_height (pixmaps s (draw_pixmap draw)) * pitch (bos s (priv_bo (buffers s b)))
        \<le> bo_size (bos s (priv_bo (buffers s b))))"

text \<open>Two states agree on what no step of the scheduler writes: the geometry of the
  pixmaps, the layout of the buffer objects, the format and attachment of the buffers.\<close>

definition static_eq :: "sna \<Rightarrow> sna \<Rightarrow> bool" where
  "static_eq s s' =
     ((\<forall>y. pix_width (pixmaps s' y) = pix_width (pixmaps s y) \<and>
           pix_height (pixmaps s' y) = pix_height (pixmaps s y) \<and>
           screen_x (pixmaps s' y) = screen_x (pixmaps s y) \<and>
           screen_y (pixmaps s' y) = screen_y (pixmaps s y)) \<and>
      (\<forall>b. pitch (bos s' b) = pitch (bos s b) \<and> bo_size (bos s' b) = bo_size (bos s b) \<and>
           tiling (bos s' b) = tiling (bos s b)) \<and>
      (\<forall>x. format (buffers s' x) = format (buffers s x) \<and>
           attachment (buffers s' x) = attachment (buffers s x)))"

text \<open>Two states agree on the buffer object, the name and the chain head of every
  buffer.\<close>

definition buffers_eq :: "sna \<Rightarrow> sna \<Rightarrow> bool" where
  "buffers_eq s s' =
     (\<forall>x. priv_bo (buffers s' x) = priv_bo (buffers s x) \<and>
          name (buffers s' x) = name (buffers s x) \<and>
          priv_chain (buffers s' x) = priv_chain (buffers s x))"


section \<open>Flip eligibility as the specification lists it\<close>



section \<open>Facts about the primitive steps\<close>

lemma emit_fields [simp]:
  "events (emit x s) = events s" "next_event (emit x s) = next_event s"
  "buffers (emit x s) = buffers s" "bos (emit x s) = bos s" "pixmaps (emit x s) = pixmaps s"
  "flip_pending (emit x s) = flip_pending s" "client_resource (emit x s) = client_resource s"
  "drawable_resource (emit x s) = drawable_resource s" "vblank_queue (emit x s) = vblank_queue s"
  "msc_warn_limit (emit x s) = msc_warn_limit s" "log (emit x s) = log s @ [x]"
  by (simp_all add: emit_def)

lemma upd_event_fields [simp]:
  "events (upd_event e f s) = (events s)(e := map_option f (events s e))"
  "next_event (upd_event e f s) = next_event s"
  "buffers (upd_event e f s) = buffers s" "bos (upd_event e f s) = bos s"
  "pixmaps (upd_event e f s) = pixmaps s" "flip_pending (upd_event e f s) = flip_pending s"
  "client_resource (upd_event e f s) = client_resource s"
  "drawable_resource (upd_event e f s) = drawable_resource s"
  "vblank_queue (upd_event e f s) = vblank_queue s"
  "msc_warn_limit (upd_event e f s) = msc_warn_limit s" "log (upd_event e f s) = log s"
  by (simp_all add: upd_event_def)

lemma upd_buffer_fields [simp]:
  "events (upd_buffer b f s) = events s" "next_event (upd_buffer b f s) = next_event s"
  "buffers (upd_buffer b f s) = (buffers s)(b := f (buffers s b))" "bos (upd_buffer b f s) = bos s"
  "pixmaps (upd_buffer b f s) = pixmaps s" "flip_pending (upd_buffer b f s) = flip_pending s"
  "client_resource (upd_buffer b f s) = client_resource s"
  "drawable_resource (upd_buffer b f s) = drawable_resource s"
  "vblank_queue (upd_buffer b f s) = vblank_queue s"
  "msc_warn_limit (upd_buffer b f s) = msc_warn_limit s" "log (upd_buffer b f s) = log s"
  by (simp_all add: upd_buffer_def)

lemma set_bo_fields [simp]:
  "events (set_bo pm b s) = events s" "next_event (set_bo pm b s) = next_event s"
  "buffers (set_bo pm b s) = buffers s"
  "pitch (bos (set_bo pm b s) x) = pitch (bos s x)"
  "bo_size (bos (set_bo pm b s) x) = bo_size (bos s x)"
  "tiling (bos (set_bo pm b s) x) = tiling (bos s x)"
  "pix_width (pixmaps (set_bo pm b s) y) = pix_width (pixmaps s y)"
  "pix_height (pixmaps (set_bo pm b s) y) = pix_height (pixmaps s y)"
  "screen_x (pixmaps (set_bo pm b s) y) = screen_x (pixmaps s y)"
  "screen_y (pixmaps (set_bo pm b s) y) = screen_y (pixmaps s y)"
  "gpu_bo (pixmaps (set_bo pm b s) y) = (if y = pm then b else gpu_bo (pixmaps s y))"
  "flip_pending (set_bo pm b s) = flip_pending s"
  "client_resource (set_bo pm b s) = client_resource s"
  "drawable_resource (set_bo pm b s) = drawable_resource s"
  "vblank_queue (set_bo pm b s) = vblank_queue s"
  "msc_warn_limit (set_bo pm b s) = msc_warn_limit s"
  "log (set_bo pm b s) = log s @ [DamagePixmap pm]"
  by (simp_all add: set_bo_def Let_def ref_def kgem_bo_destroy_def emit_def)

lemma ref_fields [simp]:
  "events (ref b s) = events s" "next_event (ref b s) = next_event s"
  "buffers (ref b s) = buffers s"
  "pitch (bos (ref b s) x) = pitch (bos s x)"
  "bo_size (bos (ref b s) x) = bo_size (bos s x)"
  "tiling (bos (ref b s) x) = tiling (bos s x)"
  "pixmaps (ref b s) = pixmaps s" "flip_pending (ref b s) = flip_pending s"
  "client_resource (ref b s) = client_resource s"
  "drawable_resource (ref b s) = drawable_resource s"
  "vblank_queue (ref b s) = vblank_queue s"
  "msc_warn_limit (ref b s) = msc_warn_limit s" "log (ref b s) = log s"
  by (simp_all add: ref_def)

lemma kgem_bo_destroy_fields [simp]:
  "events (kgem_bo_destroy b s) = events s" "next_event (kgem_bo_destroy b s) = next_event s"
  "buffers (kgem_bo_destroy b s) = buffers s"
  "pitch (bos (kgem_bo_destroy b s) x) = pitch (bos s x)"
  "bo_size (bos (kgem_bo_destroy b s) x) = bo_size (bos s x)"
  "tiling (bos (kgem_bo_destroy b s) x) = tiling (bos s x)"
  "pixmaps (kgem_bo_destroy b s) = pixmaps s"
  "flip_pending (kgem_bo_destroy b s) = flip_pending s"
  "client_resource (kgem_bo_destroy b s) = client_resource s"
  "drawable_resource (kgem_bo_destroy b s) = drawable_resource s"
  "vblank_queue (kgem_bo_destroy b s) = vblank_queue s"
  "msc_warn_limit (kgem_bo_destroy b s) = msc_warn_limit s" "log (kgem_bo_destroy b s) = log s"
  by (simp_all add: kgem_bo_destroy_def)

lemma list_del_client_fields [simp]:
  "events (list_del_client e s) = events s" "next_event (list_del_client e s) = next_event s"
  "buffers (list_del_client e s) = buffers s" "bos (list_del_client e s) = bos s"
  "pixmaps (list_del_client e s) = pixmaps s"
  "flip_pending (list_del_client e s) = flip_pending s"
  "client_resource (list_del_client e s) c = removeAll e (client_resource s c)"
  "drawable_resource (list_del_client e s) = drawable_resource s"
  "vblank_queue (list_del_client e s) = vblank_queue s"
  "msc_warn_limit (list_del_client e s) = msc_warn_limit s" "log (list_del_client e s) = log s"
  by (simp_all add: list_del_client_def)

lemma list_del_drawable_fields [simp]:
  "events (list_del_drawable e s) = events s" "next_event (list_del_drawable e s) = next_event s"
  "buffers (list_del_drawable e s) = buffers s" "bos (list_del_drawable e s) = bos s"
  "pixmaps (list_del_drawable e s) = pixmaps s"
  "flip_pending (list_del_drawable e s) = flip_pending s"
  "client_resource (list_del_drawable e s) = client_resource s"
  "drawable_resource (list_del_drawable e s) d = removeAll e (drawable_resource s d)"
  "vblank_queue (list_del_drawable e s) = vblank_queue s"
  "msc_warn_limit (list_del_drawable e s) = msc_warn_limit s"
  "log (list_del_drawable e s) = log s"
  by (simp_all add: list_del_drawable_def)

lemma free_event_fields [simp]:
  "events (free_event e s) = (events s)(e := None)" "next_event (free_event e s) = next_event s"
  "buffers (free_event e s) = buffers s" "bos (free_event e s) = bos s"
  "pixmaps (free_event e s) = pixmaps s" "flip_pending (free_event e s) = flip_pending s"
  "client_resource (free_event e s) = client_resource s"
  "drawable_resource (free_event e s) = drawable_resource s"
  "vblank_queue (free_event e s) = vblank_queue s"
  "msc_warn_limit (free_event e s) = msc_warn_limit s"
  "log (free_event e s) = log s @ [FreeEvent e]"
  by (simp_all add: free_event_def)

lemma sna_wait_vblank_fields [simp]:
  "events (sna_wait_vblank req reply s) = events s"
  "next_event (sna_wait_vblank req reply s) = next_event s"
  "buffers (sna_wait_vblank req reply s) = buffers s" "bos (sna_wait_vblank req reply s) = bos s"
  "pixmaps (sna_wait_vblank req reply s) = pixmaps s"
  "flip_pending (sna_wait_vblank req reply s) = flip_pending s"
  "client_resource (sna_wait_vblank req reply s) = client_resource s"
  "drawable_resource (sna_wait_vblank req reply s) = drawable_resource s"
  "msc_warn_limit (sna_wait_vblank req reply s) = msc_warn_limit s"
  "log (sna_wait_vblank req reply s) = log s @ [WaitVBlank req reply]"
  by (simp_all add: sna_wait_vblank_def Let_def split: option.splits bool.splits)

lemma sna_wait_vblank_queue [simp]:
  "vblank_queue (sna_wait_vblank req reply s) =
     (case (reply, vbl_event req, vbl_signal req) of
        (Some r, True, Some e) \<Rightarrow> vblank_queue s @ [e]
      | _ \<Rightarrow> vblank_queue s)"
  by (simp add: sna_wait_vblank_def Let_def split: option.splits bool.splits)

lemma DRI2SwapComplete_fields [simp]:
  "events (DRI2SwapComplete c draw frm sec usec ty func dat s) = events s"
  "next_event (DRI2SwapComplete c draw frm sec usec ty func dat s) = next_event s"
  "buffers (DRI2SwapComplete c draw frm sec usec ty func dat s) = buffers s"
  "bos (DRI2SwapComplete c draw frm sec usec ty func dat s) = bos s"
  "pixmaps (DRI2SwapComplete c draw frm sec usec ty func dat s) = pixmaps s"
  "flip_pending (DRI2SwapComplete c draw frm sec usec ty func dat s) = flip_pending s"
  "client_resource (DRI2SwapComplete c draw frm sec usec ty func dat s) = client_resource s"
  "drawable_resource (DRI2SwapComplete c draw frm sec usec ty func dat s) = drawable_resource s"
  "vblank_queue (DRI2SwapComplete c draw frm sec usec ty func dat s) = vblank_queue s"
  "msc_warn_limit (DRI2SwapComplete c draw frm sec usec ty func dat s) = msc_warn_limit s"
  "log (DRI2SwapComplete c draw frm sec usec ty func dat s) =
     log s @ [SwapComplete c (draw_id draw) frm sec usec ty func dat]"
  by (simp_all add: DRI2SwapComplete_def)

lemma emits_fields [simp]:
  "events (emits xs s) = events s" "next_event (emits xs s) = next_event s"
  "buffers (emits xs s) = buffers s" "bos (emits xs s) = bos s"
  "pixmaps (emits xs s) = pixmaps s" "flip_pending (emits xs s) = flip_pending s"
  "client_resource (emits xs s) = client_resource s"
  "drawable_resource (emits xs s) = drawable_resource s"
  "vblank_queue (emits xs s) = vblank_queue s" "msc_warn_limit (emits xs s) = msc_warn_limit s"
  "log (emits xs s) = log s @ xs"
  by (simp_all add: emits_def)

lemma sna_dri_copy_to_front_eq [simp]:
  "sna_dri_copy_to_front ans draw dst src sync s =
     (copy_returned ans draw sync, emits (copy_issued draw dst src sync) s)"
  by (simp add: sna_dri_copy_to_front_def copy_returned_def copy_issued_def emits_def emit_def)

lemma sna_dri_reference_buffer_fields [simp]:
  "events (sna_dri_reference_buffer b s) = events s"
  "next_event (sna_dri_reference_buffer b s) = next_event s"
  "buffers (sna_dri_reference_buffer b s) = (buffers s)(b := (buffers s b)\<lparr>refcnt := refcnt (buffers s b) + 1\<rparr>)"
  "bos (sna_dri_reference_buffer b s) = bos s" "pixmaps (sna_dri_reference_buffer b s) = pixmaps s"
  "flip_pending (sna_dri_reference_buffer b s) = flip_pending s"
  "client_resource (sna_dri_reference_buffer b s) = client_resource s"
  "drawable_resource (sna_dri_reference_buffer b s) = drawable_resource s"
  "vblank_queue (sna_dri_reference_buffer b s) = vblank_queue s"
  "msc_warn_limit (sna_dri_reference_buffer b s) = msc_warn_limit s"
  "log (sna_dri_reference_buffer b s) = log s"
  by (simp_all add: sna_dri_reference_buffer_def)

lemma sna_dri_destroy_buffer_fields [simp]:
  "events (sna_dri_destroy_buffer b s) = events s"
  "next_event (sna_dri_destroy_buffer b s) = next_event s"
  "priv_bo (buffers (sna_dri_destroy_buffer b s) x) = priv_bo (buffers s x)"
  "priv_chain (buffers (sna_dri_destroy_buffer b s) x) = priv_chain (buffers s x)"
  "name (buffers (sna_dri_destroy_buffer b s) x) = name (buffers s x)"
  "format (buffers (sna_dri_destroy_buffer b s) x) = format (buffers s x)"
  "attachment (buffers (sna_dri_destroy_buffer b s) x) = attachment (buffers s x)"
  "pitch (bos (sna_dri_destroy_buffer b s) y) = pitch (bos s y)"
  "bo_size (bos (sna_dri_destroy_buffer b s) y) = bo_size (bos s y)"
  "tiling (bos (sna_dri_destroy_buffer b s) y) = tiling (bos s y)"
  "pixmaps (sna_dri_destroy_buffer b s) = pixmaps s"
  "flip_pending (sna_dri_destroy_buffer b s) = flip_pending s"
  "client_resource (sna_dri_destroy_buffer b s) = client_resource s"
  "drawable_resource (sna_dri_destroy_buffer b s) = drawable_resource s"
  "vblank_queue (sna_dri_destroy_buffer b s) = vblank_queue s"
  "msc_warn_limit (sna_dri_destroy_buffer b s) = msc_warn_limit s"
  "notifications (sna_dri_destroy_buffer b s) = notifications s"
  "vblanks (sna_dri_destroy_buffer b s) = vblanks s"
  by (simp_all add: sna_dri_destroy_buffer_def Let_def notifications_def vblanks_def)

lemma set_log_destroy_buffer: "set (log s) \<subseteq> set (log (sna_dri_destroy_buffer b s))"
  by (auto simp: sna_dri_destroy_buffer_def Let_def)

section \<open>Facts about allocating and releasing a frame event\<close>

lemma info_free_None:
  "events s e = None \<Longrightarrow> sna_dri_frame_event_info_free e s = Inl BadPointer"
  by (simp add: sna_dri_frame_event_info_free_def)

lemma info_free_Some:
  assumes "events s e = Some info"
  shows "\<exists>s'. sna_dri_frame_event_info_free e s = Inr s' \<and>
           events s' = (events s)(e := None) \<and> next_event s' = next_event s \<and>
           flip_pending s' = flip_pending s \<and> vblank_queue s' = vblank_queue s \<and>
           pixmaps s' = pixmaps s \<and> msc_warn_limit s' = msc_warn_limit s \<and>
           notifications s' = notifications s \<and> vblanks s' = vblanks s \<and>
           (\<forall>x. priv_bo (buffers s' x) = priv_bo (buffers s x) \<and>
                priv_chain (buffers s' x) = priv_chain (buffers s x) \<and>
                name (buffers s' x) = name (buffers s x) \<and>
                format (buffers s' x) = format (buffers s x) \<and>
                attachment (buffers s' x) = attachment (buffers s x)) \<and>
           (\<forall>y. pitch (bos s' y) = pitch (bos s y) \<and> bo_size (bos s' y) = bo_size (bos s y) \<and>
                tiling (bos s' y) = tiling (bos s y))"
  using assms
  by (simp add: sna_dri_frame_event_info_free_def Let_def notifications_def vblanks_def
      sna_dri_destroy_buffer_fields [unfolded notifications_def vblanks_def])

lemma new_frame_event_ok:
  assumes "calloc_ok ans" "client_resource_ok ans" "drawable_resource_ok ans"
  shows "\<exists>s1. new_frame_event ans ty c draw front back p func dat s
                = Inr (Some (next_event s), s1) \<and>
           events s1 = (events s)(next_event s := Some (calloc_event
             \<lparr>etype := ty, drawable_id := draw_id draw, client := Some c,
              event_complete := func, event_data := dat, front_buf := front,
              back_buf := back, pipe := p\<rparr>)) \<and>
           next_event s1 = Suc (next_event s) \<and>
           log s1 = log s @ [Calloc (Some (next_event s))] \<and>
           flip_pending s1 = flip_pending s \<and> vblank_queue s1 = vblank_queue s \<and>
           pixmaps s1 = pixmaps s \<and> bos s1 = bos s \<and> msc_warn_limit s1 = msc_warn_limit s \<and>
           (\<forall>x. priv_bo (buffers s1 x) = priv_bo (buffers s x) \<and>
                priv_chain (buffers s1 x) = priv_chain (buffers s x) \<and>
                name (buffers s1 x) = name (buffers s x) \<and>
                format (buffers s1 x) = format (buffers s x) \<and>
                attachment (buffers s1 x) = attachment (buffers s x))"
  using assms
  by (simp add: new_frame_event_def calloc_def sna_dri_add_frame_event_def Let_def)

lemma new_frame_event_fail:
  assumes "\<not> (calloc_ok ans \<and> client_resource_ok ans \<and> drawable_resource_ok ans)"
  shows "\<exists>s1. new_frame_event ans ty c draw front back p func dat s = Inr (None, s1) \<and>
           events s1 = (if calloc_ok ans then (events s)(next_event s := None) else events s) \<and>
           next_event s1 = (if calloc_ok ans then Suc (next_event s) else next_event s) \<and>
           flip_pending s1 = flip_pending s \<and> vblank_queue s1 = vblank_queue s \<and>
           pixmaps s1 = pixmaps s \<and> bos s1 = bos s \<and> buffers s1 = buffers s \<and>
           msc_warn_limit s1 = msc_warn_limit s \<and>
           notifications s1 = notifications s \<and> vblanks s1 = vblanks s \<and>
           (calloc_ok ans \<or> log s1 = log s @ [Calloc None])"
  using assms
  by (auto simp: new_frame_event_def calloc_def sna_dri_add_frame_event_def Let_def
      notifications_def vblanks_def fun_eq_iff)

section \<open>Exchange\<close>

text \<open>
  C8. Exchanging the same front and back buffer twice gives both buffers their original
  buffer object and name back. One exchange gives each buffer the buffer object and the
  name of the other, and does nothing else to the outside than to post damage on the
  pixmap: no copy is issued. The second exchange passes its assertions whenever the
  first did. This holds also when front and back are the same buffer.
\<close>

theorem exchange_twice_restores:
  assumes "sna_dri_exchange_buffers cfg draw front back s = Inr s1"
  shows "\<exists>s2. sna_dri_exchange_buffers cfg draw front back s1 = Inr s2 \<and>
           priv_bo (buffers s2 front) = priv_bo (buffers s front) \<and>
           priv_bo (buffers s2 back) = priv_bo (buffers s back) \<and>
           name (buffers s2 front) = name (buffers s front) \<and>
           name (buffers s2 back) = name (buffers s back) \<and>
           priv_bo (buffers s1 front) = priv_bo (buffers s back) \<and>
           priv_bo (buffers s1 back) = priv_bo (buffers s front) \<and>
           name (buffers s1 front) = name (buffers s back) \<and>
           name (buffers s1 back) = name (buffers s front) \<and>
           log s1 = log s @ [DamagePixmap (draw_pixmap draw)] \<and>
           log s2 = log s1 @ [DamagePixmap (draw_pixmap draw)]"
  using assms
  by (auto simp: sna_dri_exchange_buffers_def Let_def split: if_splits)

theorem exchange_twice_restores_witness:
  "\<exists>s1 s2. sna_dri_exchange_buffers default_config fullscreen_window 1 2 idle_sna = Inr s1 \<and>
     sna_dri_exchange_buffers default_config fullscreen_window 1 2 s1 = Inr s2 \<and>
     priv_bo (buffers s1 1) = 12 \<and> name (buffers s1 1) = 102 \<and>
     priv_bo (buffers s1 2) = 11 \<and> name (buffers s1 2) = 101 \<and>
     priv_bo (buffers s2 1) = 11 \<and> name (buffers s2 1) = 101 \<and>
     priv_bo (buffers s2 2) = 12 \<and> name (buffers s2 2) = 102"
proof -
  obtain s1 where h: "sna_dri_exchange_buffers default_config fullscreen_window 1 2 idle_sna = Inr s1"
    by (simp add: sna_dri_exchange_buffers_def Let_def idle_sna_def default_config_def
        fullscreen_window_def)
  from exchange_twice_restores [OF h] obtain s2 where
    "sna_dri_exchange_buffers default_config fullscreen_window 1 2 s1 = Inr s2"
    "priv_bo (buffers s2 1) = priv_bo (buffers idle_sna 1)"
    "priv_bo (buffers s2 2) = priv_bo (buffers idle_sna 2)"
    "name (buffers s2 1) = name (buffers idle_sna 1)"
    "name (buffers s2 2) = name (buffers idle_sna 2)"
    "priv_bo (buffers s1 1) = priv_bo (buffers idle_sna 2)"
    "priv_bo (buffers s1 2) = priv_bo (buffers idle_sna 1)"
    "name (buffers s1 1) = name (buffers idle_sna 2)"
    "name (buffers s1 2) = name (buffers idle_sna 1)"
    by blast
  with h show ?thesis
    by (intro exI [of _ s1] exI [of _ s2]) (simp add: idle_sna_def)
qed

section \<open>The deadline of a divisor swap\<close>

lemma unat_ucast_32_64: "unat (ucast (w :: 32 word) :: 64 word) = unat w"
proof -
  have "unat w < 2 ^ 32" using unsigned_less [of w] by simp
  then have "unat w < (2 :: nat) ^ 64" by simp
  then show ?thesis by (simp add: unsigned_ucast_eq take_bit_nat_eq_self)
qed

lemma unat_ucast_64_32: "unat (x :: 64 word) < 2 ^ 32 \<Longrightarrow> unat (ucast x :: 32 word) = unat x"
  by (simp add: unsigned_ucast_eq take_bit_nat_eq_self)

lemma deadline_word:
  fixes cur :: "32 word"
  assumes "0 < D" "R < D" "unat cur + D < 2 ^ 32"
  shows "unat (ucast ((ucast cur :: 64 word) - ucast cur mod of_nat D + of_nat R) :: 32 word)
           = unat cur - unat cur mod D + R"
proof -
  let ?c = "unat cur"
  have D64: "D < 2 ^ 64" and R64: "R < 2 ^ 64" using assms by auto
  have uD: "unat (of_nat D :: 64 word) = D" using D64 by (simp add: unat_of_nat)
  have uR: "unat (of_nat R :: 64 word) = R" using R64 by (simp add: unat_of_nat)
  have uc: "unat (ucast cur :: 64 word) = ?c" by (rule unat_ucast_32_64)
  have um: "unat ((ucast cur :: 64 word) mod of_nat D) = ?c mod D"
    by (simp add: unat_mod uc uD)
  have le: "(ucast cur :: 64 word) mod of_nat D \<le> ucast cur"
    by (simp add: word_le_nat_alt um uc)
  have us: "unat ((ucast cur :: 64 word) - ucast cur mod of_nat D) = ?c - ?c mod D"
    using le by (simp add: unat_sub uc um)
  have bound: "?c - ?c mod D + R < 2 ^ 32" using assms by simp
  have ua: "unat ((ucast cur :: 64 word) - ucast cur mod of_nat D + of_nat R) = ?c - ?c mod D + R"
  proof -
    have "unat ((ucast cur :: 64 word) - ucast cur mod of_nat D) + unat (of_nat R :: 64 word)
            < 2 ^ LENGTH(64)"
      using bound us uR by simp
    then show ?thesis using us uR by (simp add: unat_add_lem [THEN iffD1])
  qed
  show ?thesis
    using ua bound by (simp add: unat_ucast_64_32)
qed

lemma flip_deadline_unat:
  fixes cur :: "32 word"
  assumes "0 < D" "R < D" "unat cur + D < 2 ^ 32"
  shows "unat (flip_deadline (ucast cur) (of_nat D) (of_nat R)) =
           (if unat cur - unat cur mod D + R \<le> unat cur
            then unat cur - unat cur mod D + R + D else unat cur - unat cur mod D + R)"
proof -
  let ?n = "unat cur - unat cur mod D + R"
  let ?seq = "ucast ((ucast cur :: 64 word) - ucast cur mod of_nat D + of_nat R) :: 32 word"
  have n: "unat ?seq = ?n" by (rule deadline_word [OF assms])
  have D64: "D < 2 ^ 64" using assms by auto
  have uD: "unat (of_nat D :: 64 word) = D" using D64 by (simp add: unat_of_nat)
  have uD32: "unat (ucast (of_nat D :: 64 word) :: 32 word) = D"
    using assms uD by (simp add: unat_ucast_64_32)
  have cmp: "((ucast ?seq :: 64 word) \<le> ucast cur) = (?n \<le> unat cur)"
    by (simp only: word_le_nat_alt unat_ucast_32_64 n)
  show ?thesis
  proof (cases "?n \<le> unat cur")
    case True
    then have "unat ?seq + unat (ucast (of_nat D :: 64 word) :: 32 word) < 2 ^ LENGTH(32)"
      using n uD32 assms by simp
    then have "unat (?seq + ucast (of_nat D :: 64 word)) = ?n + D"
      using n uD32 by (simp add: unat_add_lem [THEN iffD1])
    with True cmp show ?thesis by (simp add: flip_deadline_def Let_def)
  next
    case False
    with cmp n show ?thesis by (simp add: flip_deadline_def Let_def)
  qed
qed

lemma next_multiple:
  fixes c D R :: nat
  assumes "0 < D" "R < D"
  defines "N \<equiv> (if c - c mod D + R \<le> c then c - c mod D + R + D else c - c mod D + R)"
  shows "N mod D = R" "c < N" "N \<le> c + D" "\<forall>M. c < M \<and> M mod D = R \<longrightarrow> N \<le> M"
proof -
  have base: "(c - c mod D) mod D = 0" by (simp add: minus_mod_eq_mult_div)
  have m: "(c - c mod D + R) mod D = R" using assms base
    by (metis add.left_neutral mod_add_left_eq mod_less)
  show 1: "N mod D = R" using m by (simp add: N_def)
  have md: "c mod D < D" using assms by simp
  have le: "c mod D \<le> c" by simp
  show 2: "c < N"
  proof (cases "c - c mod D + R \<le> c")
    case True
    then have "N = c - c mod D + R + D" by (simp add: N_def)
    with md le show ?thesis by linarith
  next
    case False
    then show ?thesis by (simp add: N_def)
  qed
  show 3: "N \<le> c + D"
  proof (cases "c - c mod D + R \<le> c")
    case True
    then have "N = c - c mod D + R + D" by (simp add: N_def)
    with True show ?thesis by linarith
  next
    case False
    then have "N = c - c mod D + R" by (simp add: N_def)
    with assms le show ?thesis by linarith
  qed
  show "\<forall>M. c < M \<and> M mod D = R \<longrightarrow> N \<le> M"
  proof (intro allI impI)
    fix M assume M: "c < M \<and> M mod D = R"
    show "N \<le> M"
    proof (rule ccontr)
      assume "\<not> N \<le> M"
      then have lt: "M < N" by simp
      have "(N - M) mod D = 0" using 1 M lt
        by (metis mod_eq_dvd_iff_nat less_imp_le_nat dvd_imp_mod_0)
      then have "D dvd (N - M)" by auto
      then have "D \<le> N - M" using lt by (simp add: dvd_imp_le)
      then show False using 3 M lt by linarith
    qed
  qed
qed

lemma mask32_of_nat: "n < 2 ^ 32 \<Longrightarrow> (of_nat n :: 64 word) AND 0xffffffff = of_nat n"
proof -
  assume n: "n < 2 ^ 32"
  then have "n < (2 :: nat) ^ 64" by simp
  then have "uint (of_nat n :: 64 word) = int n"
    by (simp add: unsigned_of_nat take_bit_nat_eq_self)
  then have "uint (of_nat n :: 64 word) < 2 ^ 32" using n by simp
  then have "(of_nat n :: 64 word) AND mask 32 = of_nat n" by (simp add: mask_eq_iff)
  moreover have "(mask 32 :: 64 word) = 0xffffffff" by (simp add: mask_eq_exp_minus_1)
  ultimately show ?thesis by simp
qed

lemma of_nat_64_nonzero: "0 < n \<Longrightarrow> n < 2 ^ 32 \<Longrightarrow> (of_nat n :: 64 word) \<noteq> 0"
proof
  assume n: "0 < n" "n < 2 ^ 32" and z: "(of_nat n :: 64 word) = 0"
  from n have "n < (2 :: nat) ^ 64" by simp
  then have "unat (of_nat n :: 64 word) = n" by (simp add: unat_of_nat)
  with z n show False by simp
qed

lemma schedule_flip_divisor:
  assumes pipe: "sna_dri_get_pipe draw \<noteq> - 1"
    and div: "divisor AND 0xffffffff \<noteq> 0"
    and q: "vbl_query ans = Some cur"
    and passed: "\<not> ucast cur < target_msc AND 0xffffffff"
    and ok: "calloc_ok ans" "client_resource_ok ans" "drawable_resource_ok ans"
  shows "\<exists>t s'.
           sna_dri_schedule_flip cfg ans c draw front bk target_msc divisor remainder func dat s
             = Inr (vbl_arm ans \<noteq> None, t, s') \<and>
           vblanks s' = vblanks s @
             [WaitVBlank \<lparr>vbl_absolute = False, vbl_event = False, vbl_nextonmiss = False,
                          vbl_crtc = pipe_select (sna_dri_get_pipe draw), vbl_sequence = 0,
                          vbl_signal = None\<rparr> (Some cur),
              WaitVBlank \<lparr>vbl_absolute = True, vbl_event = True, vbl_nextonmiss = False,
                          vbl_crtc = pipe_select (sna_dri_get_pipe draw),
                          vbl_sequence = flip_deadline (ucast cur) (divisor AND 0xffffffff)
                                           (remainder AND 0xffffffff) - 1,
                          vbl_signal = Some (next_event s)\<rparr> (vbl_arm ans)]"
proof -
  from new_frame_event_ok [OF ok, of DRI2_FLIP c draw front bk "sna_dri_get_pipe draw" func dat s]
  obtain s1 where s1: "new_frame_event ans DRI2_FLIP c draw front bk (sna_dri_get_pipe draw) func dat s
                = Inr (Some (next_event s), s1)"
    "events s1 (next_event s) \<noteq> None" "log s1 = log s @ [Calloc (Some (next_event s))]"
    by auto
  show ?thesis
  proof (cases "vbl_arm ans")
    case None
    let ?s3 = "sna_wait_vblank \<lparr>vbl_absolute = True, vbl_event = True, vbl_nextonmiss = False,
                          vbl_crtc = pipe_select (sna_dri_get_pipe draw),
                          vbl_sequence = flip_deadline (ucast cur) (divisor AND 0xffffffff)
                                           (remainder AND 0xffffffff) - 1,
                          vbl_signal = Some (next_event s)\<rparr> None
                (sna_wait_vblank \<lparr>vbl_absolute = False, vbl_event = False, vbl_nextonmiss = False,
                          vbl_crtc = pipe_select (sna_dri_get_pipe draw), vbl_sequence = 0,
                          vbl_signal = None\<rparr> (Some cur) s1)"
    have "events ?s3 (next_event s) \<noteq> None" using s1(2) by simp
    then obtain info where "events ?s3 (next_event s) = Some info" by auto
    from info_free_Some [OF this] obtain s4 where
      s4: "sna_dri_frame_event_info_free (next_event s) ?s3 = Inr s4" "vblanks s4 = vblanks ?s3"
      by blast
    show ?thesis
      using pipe div passed s1 q None s4
      by (auto simp: sna_dri_schedule_flip_def Let_def vblanks_def)
  next
    case (Some r)
    show ?thesis
      using pipe div passed s1 q Some
      by (auto simp: sna_dri_schedule_flip_def Let_def vblanks_def)
  qed
qed

lemma schedule_swap_divisor:
  assumes nf: "\<not> can_flip cfg s draw front bk"
    and pipe: "sna_dri_get_pipe draw \<noteq> - 1"
    and div: "divisor AND 0xffffffff \<noteq> 0"
    and q: "vbl_query ans = Some cur"
    and passed: "\<not> ucast cur < target_msc AND 0xffffffff"
    and arm: "vbl_arm ans = Some r"
    and ok: "calloc_ok ans" "client_resource_ok ans" "drawable_resource_ok ans"
  shows "\<exists>s'.
           sna_dri_schedule_swap cfg ans c draw front bk target_msc divisor remainder func dat s
             = Inr (True, ucast r, s') \<and>
           vblanks s' = vblanks s @
             [WaitVBlank \<lparr>vbl_absolute = False, vbl_event = False, vbl_nextonmiss = False,
                          vbl_crtc = pipe_select (sna_dri_get_pipe draw), vbl_sequence = 0,
                          vbl_signal = None\<rparr> (Some cur),
              WaitVBlank \<lparr>vbl_absolute = True, vbl_event = True, vbl_nextonmiss = True,
                          vbl_crtc = pipe_select (sna_dri_get_pipe draw),
                          vbl_sequence = swap_deadline (ucast cur) (divisor AND 0xffffffff)
                                           (remainder AND 0xffffffff) - 1,
                          vbl_signal = Some (next_event s)\<rparr> (Some r)]"
proof -
  from new_frame_event_ok [OF ok, of DRI2_SWAP c draw front bk "sna_dri_get_pipe draw" func dat s]
  obtain s1 where s1: "new_frame_event ans DRI2_SWAP c draw front bk (sna_dri_get_pipe draw) func dat s
                = Inr (Some (next_event s), s1)"
    "events s1 (next_event s) \<noteq> None" "log s1 = log s @ [Calloc (Some (next_event s))]"
    by auto
  show ?thesis
    using nf pipe div passed s1 q arm
    by (auto simp: sna_dri_schedule_swap_def Let_def vblanks_def)
qed

lemma schedule_swap_flipped:
  assumes "can_flip cfg s draw front bk"
    and "sna_dri_schedule_flip cfg ans c draw front bk target_msc divisor remainder func dat s
           = Inr (True, t, s')"
  shows "sna_dri_schedule_swap cfg ans c draw front bk target_msc divisor remainder func dat s
           = Inr (True, t, s')"
  using assms by (simp add: sna_dri_schedule_swap_def)

section \<open>Which frame a divisor swap is armed for\<close>

lemma swap_deadline_flip:
  fixes cur :: "32 word"
  assumes "0 < D" "R < D" "unat cur + D < 2 ^ 32" and ne: "unat cur mod D \<noteq> R"
  shows "swap_deadline (ucast cur) (of_nat D) (of_nat R)
           = flip_deadline (ucast cur) (of_nat D) (of_nat R)"
proof -
  let ?n = "unat cur - unat cur mod D + R"
  let ?seq = "ucast ((ucast cur :: 64 word) - ucast cur mod of_nat D + of_nat R) :: 32 word"
  have n: "unat ?seq = ?n" by (rule deadline_word [OF assms(1-3)])
  have "unat cur mod D \<le> unat cur" by simp
  with ne have "?n \<noteq> unat cur" by linarith
  then have "unat (ucast ?seq :: 64 word) \<noteq> unat (ucast cur :: 64 word)"
    by (simp only: unat_ucast_32_64 n) simp
  then have "(ucast ?seq :: 64 word) \<noteq> ucast cur" by auto
  then have "((ucast ?seq :: 64 word) < ucast cur) = ((ucast ?seq :: 64 word) \<le> ucast cur)"
    by (simp add: order.strict_iff_order)
  then show ?thesis
    by (simp add: swap_deadline_def flip_deadline_def Let_def)
qed

text \<open>
  C3 (as amended). A swap is scheduled with divisor \<open>D > 0\<close> and remainder \<open>R < D\<close>,
  the target frame has passed, the frame counter \<open>cur\<close> is far enough from the end of
  its 32 bits (\<open>cur + D < 2^32\<close>), and the kernel accepts the request. Then
  \<open>sna_dri_schedule_swap\<close> asks for the current count and arms the vertical-blank event
  for frame \<open>N - 1\<close>, where \<open>N mod D = R\<close> and \<open>N\<close> is the smallest such frame beyond
  \<open>cur\<close>. This holds on the flip path, and on the blit path whenever
  \<open>cur mod D \<noteq> R\<close>.
\<close>

theorem divisor_swap_arms_one_before:
  fixes cur :: "32 word"
  assumes pipe: "sna_dri_get_pipe draw \<noteq> - 1"
    and D: "0 < D" "D < 2 ^ 32" and R: "R < D"
    and q: "vbl_query ans = Some cur" and nowrap: "unat cur + D < 2 ^ 32"
    and passed: "target_msc AND 0xffffffff \<le> ucast cur"
    and ok: "calloc_ok ans" "client_resource_ok ans" "drawable_resource_ok ans"
    and arm: "vbl_arm ans = Some r"
    and path: "can_flip cfg s draw front bk \<or> unat cur mod D \<noteq> R"
  shows "\<exists>N t s'.
           sna_dri_schedule_swap cfg ans c draw front bk target_msc (of_nat D) (of_nat R) func dat s
             = Inr (True, t, s') \<and>
           N mod D = R \<and> unat cur < N \<and> (\<forall>M. unat cur < M \<and> M mod D = R \<longrightarrow> N \<le> M) \<and>
           vblanks s' = vblanks s @
             [WaitVBlank \<lparr>vbl_absolute = False, vbl_event = False, vbl_nextonmiss = False,
                          vbl_crtc = pipe_select (sna_dri_get_pipe draw), vbl_sequence = 0,
                          vbl_signal = None\<rparr> (Some cur),
              WaitVBlank \<lparr>vbl_absolute = True, vbl_event = True,
                          vbl_nextonmiss = (\<not> can_flip cfg s draw front bk),
                          vbl_crtc = pipe_select (sna_dri_get_pipe draw),
                          vbl_sequence = of_nat N - 1,
                          vbl_signal = Some (next_event s)\<rparr> (Some r)]"
proof -
  define N where "N = (if unat cur - unat cur mod D + R \<le> unat cur
            then unat cur - unat cur mod D + R + D else unat cur - unat cur mod D + R)"
  have N: "N mod D = R" "unat cur < N" "\<forall>M. unat cur < M \<and> M mod D = R \<longrightarrow> N \<le> M"
    using next_multiple [OF D(1) R, of "unat cur"] by (simp_all add: N_def)
  have R32: "R < 2 ^ 32" using D R by simp
  have Dm: "(of_nat D :: 64 word) AND 0xffffffff = of_nat D"
    using D(2) by (rule mask32_of_nat)
  have Rm: "(of_nat R :: 64 word) AND 0xffffffff = of_nat R"
    using R32 by (rule mask32_of_nat)
  have Dnz: "(of_nat D :: 64 word) AND 0xffffffff \<noteq> 0"
    using D Dm by (simp add: of_nat_64_nonzero)
  have fd: "flip_deadline (ucast cur) (of_nat D) (of_nat R) = of_nat N"
    using flip_deadline_unat [OF D(1) R nowrap] unfolding N_def [symmetric]
    by (metis of_nat_unat ucast_id)
  have np: "\<not> (ucast cur :: 64 word) < target_msc AND 0xffffffff"
    using passed by (simp add: not_less)
  show ?thesis
  proof (cases "can_flip cfg s draw front bk")
    case True
    from schedule_flip_divisor [OF pipe Dnz q np ok, of cfg c front bk "of_nat R" func dat s]
    obtain t s' where
      f: "sna_dri_schedule_flip cfg ans c draw front bk target_msc (of_nat D) (of_nat R) func dat s
             = Inr (vbl_arm ans \<noteq> None, t, s')"
      and v: "vblanks s' = vblanks s @
             [WaitVBlank \<lparr>vbl_absolute = False, vbl_event = False, vbl_nextonmiss = False,
                          vbl_crtc = pipe_select (sna_dri_get_pipe draw), vbl_sequence = 0,
                          vbl_signal = None\<rparr> (Some cur),
              WaitVBlank \<lparr>vbl_absolute = True, vbl_event = True, vbl_nextonmiss = False,
                          vbl_crtc = pipe_select (sna_dri_get_pipe draw),
                          vbl_sequence = flip_deadline (ucast cur) (of_nat D AND 0xffffffff)
                                           (of_nat R AND 0xffffffff) - 1,
                          vbl_signal = Some (next_event s)\<rparr> (vbl_arm ans)]"
      by blast
    from f arm have "sna_dri_schedule_flip cfg ans c draw front bk target_msc (of_nat D) (of_nat R)
                       func dat s = Inr (True, t, s')" by simp
    from schedule_swap_flipped [OF True this] v N True show ?thesis
      by (intro exI [of _ N] exI [of _ t] exI [of _ s']) (simp add: Dm Rm fd arm)
  next
    case False
    with path have ne: "unat cur mod D \<noteq> R" by simp
    from schedule_swap_divisor [OF False pipe Dnz q np arm ok, of c "of_nat R" func dat]
    obtain s' where
      "sna_dri_schedule_swap cfg ans c draw front bk target_msc (of_nat D) (of_nat R) func dat s
             = Inr (True, ucast r, s')"
      "vblanks s' = vblanks s @
             [WaitVBlank \<lparr>vbl_absolute = False, vbl_event = False, vbl_nextonmiss = False,
                          vbl_crtc = pipe_select (sna_dri_get_pipe draw), vbl_sequence = 0,
                          vbl_signal = None\<rparr> (Some cur),
              WaitVBlank \<lparr>vbl_absolute = True, vbl_event = True, vbl_nextonmiss = True,
                          vbl_crtc = pipe_select (sna_dri_get_pipe draw),
                          vbl_sequence = swap_deadline (ucast cur) (of_nat D AND 0xffffffff)
                                           (of_nat R AND 0xffffffff) - 1,
                          vbl_signal = Some (next_event s)\<rparr> (Some r)]"
      by blast
    with N False show ?thesis
      by (intro exI [of _ N] exI [of _ "ucast r"] exI [of _ s'])
         (simp add: Dm Rm fd swap_deadline_flip [OF D(1) R nowrap ne])
  qed
qed

theorem divisor_swap_arms_one_before_witness:
  "\<exists>t s'. sna_dri_schedule_swap default_config ok_answers 3 fullscreen_window 1 2 0 5 2 (Some 9) 42
              idle_sna = Inr (True, t, s') \<and>
     vblanks s' =
       [WaitVBlank \<lparr>vbl_absolute = False, vbl_event = False, vbl_nextonmiss = False,
                    vbl_crtc = 0, vbl_sequence = 0, vbl_signal = None\<rparr> (Some 100),
        WaitVBlank \<lparr>vbl_absolute = True, vbl_event = True, vbl_nextonmiss = False,
                    vbl_crtc = 0, vbl_sequence = 101, vbl_signal = Some 1\<rparr> (Some 100)]"
proof -
  have pipe: "sna_dri_get_pipe fullscreen_window \<noteq> - 1"
    by (simp add: sna_dri_get_pipe_def fullscreen_window_def)
  have q: "vbl_query ok_answers = Some 100" and arm: "vbl_arm ok_answers = Some 100"
    by (simp_all add: ok_answers_def)
  have passed: "(0 :: 64 word) AND 0xffffffff \<le> ucast (100 :: 32 word)" by simp
  have ok: "calloc_ok ok_answers" "client_resource_ok ok_answers" "drawable_resource_ok ok_answers"
    by (simp_all add: ok_answers_def)
  have D: "0 < (5 :: nat)" "(5 :: nat) < 2 ^ 32" and R: "(2 :: nat) < 5"
    and nowrap: "unat (100 :: 32 word) + 5 < 2 ^ 32" by simp_all
  have cf: "can_flip default_config idle_sna fullscreen_window 1 2"
    by (simp add: can_flip_def default_config_def idle_sna_def fullscreen_window_def
        DRI2BufferFrontLeft_def RegionEqual_def)
  then have path: "can_flip default_config idle_sna fullscreen_window 1 2 \<or>
                   unat (100 :: 32 word) mod 5 \<noteq> 2" by simp
  from divisor_swap_arms_one_before [OF pipe D R q nowrap passed ok arm path,
      of 3 "Some 9" 42]
  obtain N t s' where
    r: "sna_dri_schedule_swap default_config ok_answers 3 fullscreen_window 1 2 0 5 2 (Some 9) 42
          idle_sna = Inr (True, t, s')"
    and N: "N mod 5 = 2" "100 < N" "\<forall>M. 100 < M \<and> M mod 5 = 2 \<longrightarrow> N \<le> M"
    and v: "vblanks s' = vblanks idle_sna @
             [WaitVBlank \<lparr>vbl_absolute = False, vbl_event = False, vbl_nextonmiss = False,
                          vbl_crtc = pipe_select (sna_dri_get_pipe fullscreen_window),
                          vbl_sequence = 0, vbl_signal = None\<rparr> (Some 100),
              WaitVBlank \<lparr>vbl_absolute = True, vbl_event = True,
                          vbl_nextonmiss = (\<not> can_flip default_config idle_sna fullscreen_window 1 2),
                          vbl_crtc = pipe_select (sna_dri_get_pipe fullscreen_window),
                          vbl_sequence = of_nat N - 1,
                          vbl_signal = Some (next_event idle_sna)\<rparr> (Some 100)]"
    by auto
  from N(3) have "N \<le> 102" by simp
  with N(1,2) have "N = 102" by presburger
  with r v cf show ?thesis
    by (simp add: vblanks_def idle_sna_def pipe_select_def sna_dri_get_pipe_def
        fullscreen_window_def)
qed


lemma flip_deadline_100: "flip_deadline 100 5 2 = 102"
  by (simp add: flip_deadline_def Let_def)

lemma swap_deadline_100: "swap_deadline 100 5 2 = 102"
  by (simp add: swap_deadline_def Let_def)

text \<open>
  C3, the example of the claim: with the counter at 100, divisor 5 and remainder 2, the
  flip path and the blit path of \<open>sna_dri_schedule_swap\<close> both arm frame 101, not 102.
\<close>

theorem armed_target_counterexample:
  "(\<exists>t s'. sna_dri_schedule_swap default_config ok_answers 3 fullscreen_window 1 2 0 5 2
              (Some 9) 42 idle_sna = Inr (True, t, s') \<and>
      vblanks s' =
          [WaitVBlank \<lparr>vbl_absolute = False, vbl_event = False, vbl_nextonmiss = False,
                       vbl_crtc = 0, vbl_sequence = 0, vbl_signal = None\<rparr> (Some 100),
           WaitVBlank \<lparr>vbl_absolute = True, vbl_event = True, vbl_nextonmiss = False,
                       vbl_crtc = 0, vbl_sequence = 101, vbl_signal = Some 1\<rparr> (Some 100)]) \<and>
   (\<exists>t s'. sna_dri_schedule_swap (default_config\<lparr>SNA_NO_FLIP := True\<rparr>) ok_answers 3
              fullscreen_window 1 2 0 5 2 (Some 9) 42 idle_sna = Inr (True, t, s') \<and>
      vblanks s' =
          [WaitVBlank \<lparr>vbl_absolute = False, vbl_event = False, vbl_nextonmiss = False,
                       vbl_crtc = 0, vbl_sequence = 0, vbl_signal = None\<rparr> (Some 100),
           WaitVBlank \<lparr>vbl_absolute = True, vbl_event = True, vbl_nextonmiss = True,
                       vbl_crtc = 0, vbl_sequence = 101, vbl_signal = Some 1\<rparr> (Some 100)]) \<and>
   (101 :: nat) mod 5 \<noteq> 2"
proof (intro conjI)
  have pipe: "sna_dri_get_pipe fullscreen_window \<noteq> - 1"
    by (simp add: sna_dri_get_pipe_def fullscreen_window_def)
  have div: "(5 :: 64 word) AND 0xffffffff \<noteq> 0" by simp
  have q: "vbl_query ok_answers = Some 100" and arm: "vbl_arm ok_answers = Some 100"
    by (simp_all add: ok_answers_def)
  have passed: "\<not> ucast (100 :: 32 word) < (0 :: 64 word) AND 0xffffffff" by simp
  have ok: "calloc_ok ok_answers" "client_resource_ok ok_answers" "drawable_resource_ok ok_answers"
    by (simp_all add: ok_answers_def)
  have cf: "can_flip default_config idle_sna fullscreen_window 1 2"
    by (simp add: can_flip_def default_config_def idle_sna_def fullscreen_window_def
        DRI2BufferFrontLeft_def RegionEqual_def)
  have ncf: "\<not> can_flip (default_config\<lparr>SNA_NO_FLIP := True\<rparr>) idle_sna fullscreen_window 1 2"
    by (simp add: can_flip_def default_config_def fullscreen_window_def)
  have facts: "(5 :: 64 word) AND 0xffffffff = 5" "(2 :: 64 word) AND 0xffffffff = 2"
    "vblanks idle_sna = []" "next_event idle_sna = 1"
    "pipe_select (sna_dri_get_pipe fullscreen_window) = 0"
    by (simp_all add: vblanks_def idle_sna_def pipe_select_def sna_dri_get_pipe_def
        fullscreen_window_def)
  from schedule_flip_divisor [OF pipe div q passed ok, of default_config 3 1 2 2 "Some 9" 42 idle_sna]
  obtain t s' where
    r: "sna_dri_schedule_flip default_config ok_answers 3 fullscreen_window 1 2 0 5 2 (Some 9) 42
       idle_sna = Inr (vbl_arm ok_answers \<noteq> None, t, s')"
    and v: "vblanks s' = vblanks idle_sna @
             [WaitVBlank \<lparr>vbl_absolute = False, vbl_event = False, vbl_nextonmiss = False,
                          vbl_crtc = pipe_select (sna_dri_get_pipe fullscreen_window),
                          vbl_sequence = 0, vbl_signal = None\<rparr> (Some 100),
              WaitVBlank \<lparr>vbl_absolute = True, vbl_event = True, vbl_nextonmiss = False,
                          vbl_crtc = pipe_select (sna_dri_get_pipe fullscreen_window),
                          vbl_sequence = flip_deadline (ucast (100 :: 32 word))
                             (5 AND 0xffffffff) (2 AND 0xffffffff) - 1,
                          vbl_signal = Some (next_event idle_sna)\<rparr> (vbl_arm ok_answers)]"
    by blast
  from r arm have r': "sna_dri_schedule_flip default_config ok_answers 3 fullscreen_window 1 2 0 5 2
       (Some 9) 42 idle_sna = Inr (True, t, s')" by simp
  from v have "vblanks s' =
          [WaitVBlank \<lparr>vbl_absolute = False, vbl_event = False, vbl_nextonmiss = False,
                       vbl_crtc = 0, vbl_sequence = 0, vbl_signal = None\<rparr> (Some 100),
           WaitVBlank \<lparr>vbl_absolute = True, vbl_event = True, vbl_nextonmiss = False,
                       vbl_crtc = 0, vbl_sequence = 101, vbl_signal = Some 1\<rparr> (Some 100)]"
    by (simp add: facts flip_deadline_100 arm)
  with schedule_swap_flipped [OF cf r']
  show "\<exists>t s'. sna_dri_schedule_swap default_config ok_answers 3 fullscreen_window 1 2 0 5 2
              (Some 9) 42 idle_sna = Inr (True, t, s') \<and>
      vblanks s' =
          [WaitVBlank \<lparr>vbl_absolute = False, vbl_event = False, vbl_nextonmiss = False,
                       vbl_crtc = 0, vbl_sequence = 0, vbl_signal = None\<rparr> (Some 100),
           WaitVBlank \<lparr>vbl_absolute = True, vbl_event = True, vbl_nextonmiss = False,
                       vbl_crtc = 0, vbl_sequence = 101, vbl_signal = Some 1\<rparr> (Some 100)]"
    by blast
  from schedule_swap_divisor [OF ncf pipe div q passed arm ok, of 3 2 "Some 9" 42]
  obtain s'' where
    r2: "sna_dri_schedule_swap (default_config\<lparr>SNA_NO_FLIP := True\<rparr>) ok_answers 3
           fullscreen_window 1 2 0 5 2 (Some 9) 42 idle_sna = Inr (True, ucast (100 :: 32 word), s'')"
    and v2: "vblanks s'' = vblanks idle_sna @
             [WaitVBlank \<lparr>vbl_absolute = False, vbl_event = False, vbl_nextonmiss = False,
                          vbl_crtc = pipe_select (sna_dri_get_pipe fullscreen_window),
                          vbl_sequence = 0, vbl_signal = None\<rparr> (Some 100),
              WaitVBlank \<lparr>vbl_absolute = True, vbl_event = True, vbl_nextonmiss = True,
                          vbl_crtc = pipe_select (sna_dri_get_pipe fullscreen_window),
                          vbl_sequence = swap_deadline (ucast (100 :: 32 word))
                             (5 AND 0xffffffff) (2 AND 0xffffffff) - 1,
                          vbl_signal = Some (next_event idle_sna)\<rparr> (Some 100)]"
    by blast
  from v2 have "vblanks s'' =
          [WaitVBlank \<lparr>vbl_absolute = False, vbl_event = False, vbl_nextonmiss = False,
                       vbl_crtc = 0, vbl_sequence = 0, vbl_signal = None\<rparr> (Some 100),
           WaitVBlank \<lparr>vbl_absolute = True, vbl_event = True, vbl_nextonmiss = True,
                       vbl_crtc = 0, vbl_sequence = 101, vbl_signal = Some 1\<rparr> (Some 100)]"
    by (simp add: facts swap_deadline_100)
  with r2
  show "\<exists>t s'. sna_dri_schedule_swap (default_config\<lparr>SNA_NO_FLIP := True\<rparr>) ok_answers 3
              fullscreen_window 1 2 0 5 2 (Some 9) 42 idle_sna = Inr (True, t, s') \<and>
      vblanks s' =
          [WaitVBlank \<lparr>vbl_absolute = False, vbl_event = False, vbl_nextonmiss = False,
                       vbl_crtc = 0, vbl_sequence = 0, vbl_signal = None\<rparr> (Some 100),
           WaitVBlank \<lparr>vbl_absolute = True, vbl_event = True, vbl_nextonmiss = True,
                       vbl_crtc = 0, vbl_sequence = 101, vbl_signal = Some 1\<rparr> (Some 100)]"
    by blast
  show "(101 :: nat) mod 5 \<noteq> 2" by simp
qed

section \<open>Facts about the relations between states\<close>

lemma static_eq_refl [simp]: "static_eq s s"
  by (simp add: static_eq_def)


lemma buffers_eq_refl [simp]: "buffers_eq s s"
  by (simp add: buffers_eq_def)


lemma static_eq_prims [simp]:
  "static_eq s (emit x s)" "static_eq s (upd_event e f s)" "static_eq s (set_bo pm b s)"
  "static_eq s (ref b s)" "static_eq s (kgem_bo_destroy b s)" "static_eq s (list_del_client e s)"
  "static_eq s (list_del_drawable e s)" "static_eq s (free_event e s)"
  "static_eq s (sna_wait_vblank req reply s)"
  "static_eq s (DRI2SwapComplete c draw frm sec usec ty func dat s)"
  "static_eq s (sna_dri_reference_buffer bf s)" "static_eq s (sna_dri_destroy_buffer bf s)"
  "static_eq s (emits xs s)"
  by (simp_all add: static_eq_def)


lemma static_eq_upd_buffer:
  "static_eq s s1 \<Longrightarrow> format (f (buffers s1 x)) = format (buffers s1 x) \<Longrightarrow>
   attachment (f (buffers s1 x)) = attachment (buffers s1 x) \<Longrightarrow> static_eq s (upd_buffer x f s1)"
  by (simp add: static_eq_def)

lemma buffers_eq_step:
  "buffers_eq s s1 \<Longrightarrow> buffers_eq s (emit x s1)"
  "buffers_eq s s1 \<Longrightarrow> buffers_eq s (upd_event e f s1)"
  "buffers_eq s s1 \<Longrightarrow> buffers_eq s (set_bo pm b s1)"
  "buffers_eq s s1 \<Longrightarrow> buffers_eq s (free_event e s1)"
  "buffers_eq s s1 \<Longrightarrow> buffers_eq s (sna_wait_vblank req reply s1)"
  "buffers_eq s s1 \<Longrightarrow> buffers_eq s (DRI2SwapComplete c draw frm sec usec ty func dat s1)"
  "buffers_eq s s1 \<Longrightarrow> buffers_eq s (sna_dri_reference_buffer bf s1)"
  "buffers_eq s s1 \<Longrightarrow> buffers_eq s (sna_dri_destroy_buffer bf s1)"
  "buffers_eq s s1 \<Longrightarrow> buffers_eq s (s1\<lparr>flip_pending := p\<rparr>)"
  "buffers_eq s s1 \<Longrightarrow> buffers_eq s (emits xs s1)"
  by (simp_all add: buffers_eq_def)


lemma can_flip_conj:
  "can_flip cfg s draw f b =
     (draw_type draw \<noteq> DRAWABLE_PIXMAP \<and> vtSema cfg \<and> \<not> SNA_NO_FLIP cfg \<and>
      format (buffers s f) = format (buffers s b) \<and>
      attachment (buffers s f) = DRI2BufferFrontLeft \<and> \<not> shadow_active cfg \<and>
      draw_pixmap draw = sna_front cfg \<and> RegionEqual (clipList draw) (root_winSize draw) \<and>
      draw_x draw = 0 \<and> draw_y draw = 0 \<and>
      (\<not> COMPOSITE cfg \<or>
         (draw_x draw = screen_x (pixmaps s (draw_pixmap draw)) \<and>
          draw_y draw = screen_y (pixmaps s (draw_pixmap draw)))) \<and>
      draw_width draw = pix_width (pixmaps s (draw_pixmap draw)) \<and>
      draw_height draw = pix_height (pixmaps s (draw_pixmap draw)) \<and>
      tiling (bos s (priv_bo (buffers s f))) = tiling (bos s (priv_bo (buffers s b))))"
  unfolding can_flip_def Let_def by (simp only: if_False if_True split: if_split) blast

lemma can_flip_static:
  "static_eq s s' \<Longrightarrow> buffers_eq s s' \<Longrightarrow> can_flip cfg s' draw f b = can_flip cfg s draw f b"
  by (simp add: can_flip_conj static_eq_def buffers_eq_def)


section \<open>Facts about the calls made by each step\<close>

lemma log_filters_prims [simp]:
  "notifications (upd_event e f s) = notifications s" "vblanks (upd_event e f s) = vblanks s"
  "failures (upd_event e f s) = failures s" "copies (upd_event e f s) = copies s"
  "notifications (upd_buffer x g s) = notifications s" "vblanks (upd_buffer x g s) = vblanks s"
  "failures (upd_buffer x g s) = failures s" "copies (upd_buffer x g s) = copies s"
  "notifications (set_bo pm b s) = notifications s" "vblanks (set_bo pm b s) = vblanks s"
  "failures (set_bo pm b s) = failures s" "copies (set_bo pm b s) = copies s"
  "notifications (free_event e s) = notifications s" "vblanks (free_event e s) = vblanks s"
  "failures (free_event e s) = failures s" "copies (free_event e s) = copies s"
  "notifications (sna_dri_reference_buffer x s) = notifications s"
  "vblanks (sna_dri_reference_buffer x s) = vblanks s"
  "failures (sna_dri_reference_buffer x s) = failures s"
  "copies (sna_dri_reference_buffer x s) = copies s"
  "failures (sna_dri_destroy_buffer x s) = failures s"
  "copies (sna_dri_destroy_buffer x s) = copies s"
  "notifications (s\<lparr>flip_pending := p\<rparr>) = notifications s"
  "vblanks (s\<lparr>flip_pending := p\<rparr>) = vblanks s"
  "failures (s\<lparr>flip_pending := p\<rparr>) = failures s"
  "copies (s\<lparr>flip_pending := p\<rparr>) = copies s"
  by (simp_all add: notifications_def vblanks_def failures_def copies_def
      sna_dri_destroy_buffer_def Let_def)

lemma log_filters_emit [simp]:
  "notifications (emit x s) = notifications s @ (if is_notification x then [x] else [])"
  "vblanks (emit x s) = vblanks s @ (if is_vblank x then [x] else [])"
  "failures (emit x s) = failures s @ (if is_failure x then [x] else [])"
  "copies (emit x s) = copies s @ (if is_copy x then [x] else [])"
  by (simp_all add: notifications_def vblanks_def failures_def copies_def)

lemma log_filters_emits [simp]:
  "notifications (emits xs s) = notifications s @ filter is_notification xs"
  "vblanks (emits xs s) = vblanks s @ filter is_vblank xs"
  "failures (emits xs s) = failures s @ filter is_failure xs"
  "copies (emits xs s) = copies s @ filter is_copy xs"
  by (simp_all add: notifications_def vblanks_def failures_def copies_def)

lemma copy_issued_filters [simp]:
  "filter is_notification (copy_issued draw dst src sync) = []"
  "filter is_vblank (copy_issued draw dst src sync) = []"
  "filter is_failure (copy_issued draw dst src sync) = []"
  "filter is_copy (copy_issued draw dst src sync) = copy_issued draw dst src sync"
  by (simp_all add: copy_issued_def)

lemma log_filters_swap_complete [simp]:
  "notifications (DRI2SwapComplete c draw frm sec usec ty func dat s) =
     notifications s @ [SwapComplete c (draw_id draw) frm sec usec ty func dat]"
  "vblanks (DRI2SwapComplete c draw frm sec usec ty func dat s) = vblanks s"
  "failures (DRI2SwapComplete c draw frm sec usec ty func dat s) = failures s"
  "copies (DRI2SwapComplete c draw frm sec usec ty func dat s) = copies s"
  by (simp_all add: notifications_def vblanks_def failures_def copies_def)

lemma log_filters_wait_vblank [simp]:
  "notifications (sna_wait_vblank req reply s) = notifications s"
  "vblanks (sna_wait_vblank req reply s) = vblanks s @ [WaitVBlank req reply]"
  "failures (sna_wait_vblank req reply s) =
     failures s @ (if reply = None then [WaitVBlank req None] else [])"
  "copies (sna_wait_vblank req reply s) = copies s"
  by (cases reply; simp add: notifications_def vblanks_def failures_def copies_def)+


lemma exchange_props:
  assumes "sna_dri_exchange_buffers cfg draw front bk s = Inr s'"
  shows "events s' = events s \<and> next_event s' = next_event s \<and>
           flip_pending s' = flip_pending s \<and> vblank_queue s' = vblank_queue s \<and>
           msc_warn_limit s' = msc_warn_limit s \<and>
           notifications s' = notifications s \<and> vblanks s' = vblanks s \<and>
           failures s' = failures s \<and> copies s' = copies s \<and> static_eq s s' \<and>
           (\<forall>x. priv_chain (buffers s' x) = priv_chain (buffers s x))"
  using assms
  by (auto simp: sna_dri_exchange_buffers_def Let_def static_eq_def split: if_splits)

lemma log_filters_more [simp]:
  "notifications (ref b s) = notifications s" "vblanks (ref b s) = vblanks s"
  "failures (ref b s) = failures s" "copies (ref b s) = copies s"
  "notifications (kgem_bo_destroy b s) = notifications s"
  "vblanks (kgem_bo_destroy b s) = vblanks s"
  "failures (kgem_bo_destroy b s) = failures s" "copies (kgem_bo_destroy b s) = copies s"
  "notifications (list_del_client e s) = notifications s"
  "vblanks (list_del_client e s) = vblanks s"
  "failures (list_del_client e s) = failures s" "copies (list_del_client e s) = copies s"
  "notifications (list_del_drawable e s) = notifications s"
  "vblanks (list_del_drawable e s) = vblanks s"
  "failures (list_del_drawable e s) = failures s" "copies (list_del_drawable e s) = copies s"
  by (simp_all add: notifications_def vblanks_def failures_def copies_def)

lemma info_free_total:
  assumes "events s e = Some info"
  shows "\<exists>s'. sna_dri_frame_event_info_free e s = Inr s' \<and>
           events s' = (events s)(e := None) \<and> next_event s' = next_event s \<and>
           flip_pending s' = flip_pending s \<and> vblank_queue s' = vblank_queue s \<and>
           msc_warn_limit s' = msc_warn_limit s \<and>
           notifications s' = notifications s \<and> vblanks s' = vblanks s \<and>
           failures s' = failures s \<and> copies s' = copies s \<and>
           static_eq s s' \<and> buffers_eq s s'"
  using assms
  by (simp add: sna_dri_frame_event_info_free_def Let_def static_eq_def buffers_eq_def)







section \<open>Bitmap to region: a run that starts on a word boundary\<close>

text \<open>Claim C10 (a pixel lies in the region returned by \<open>fbBitmapToRegion\<close> exactly when
  its bit is set) fails on the code as written. The loop over whole words skips a word of
  all ones while no run is open (\<open>x1 < 0\<close>) and a word of all zeros while a run is open,
  the reverse of what the skip is for. On a row of 64 pixels whose left word is clear and whose
  right word is all ones the function returns the empty region (no rectangle, extents
  \<open>x1 = x2 = 0\<close>), although pixel 32 of row 0 is set.\<close>

theorem fbBitmapToRegion_misses_run:
  "fbBitmapToRegion True right_half_bitmap =
     Some \<lparr>extents = \<lparr>box_x1 = 0, box_y1 = 0, box_x2 = 0, box_y2 = 0\<rparr>, data = Some []\<rparr> \<and>
   pixel_set right_half_bitmap 32 0 \<and>
   \<not> in_region \<lparr>extents = \<lparr>box_x1 = 0, box_y1 = 0, box_x2 = 0, box_y2 = 0\<rparr>, data = Some []\<rparr> 32 0"
  by code_simp





lemma fits_prims [simp]:
  "fits (upd_event e f s) draw b = fits s draw b"
  "fits (emit x s) draw b = fits s draw b"
  "fits (emits xs s) draw b = fits s draw b"
  "fits (sna_wait_vblank req reply s) draw b = fits s draw b"
  "fits (DRI2SwapComplete c d frm sec usec ty func dat s) draw b = fits s draw b"
  by (simp_all add: fits_def)



section \<open>Page-flip completion is counted\<close>


lemma can_flip_slot [simp]:
  "can_flip cfg (s\<lparr>flip_pending := p\<rparr>) draw f b = can_flip cfg s draw f b"
  "can_flip cfg (upd_event e g s) draw f b = can_flip cfg s draw f b"
  "fits (s\<lparr>flip_pending := p\<rparr>) draw b = fits s draw b"
  by (simp_all add: can_flip_conj fits_def)






lemma cache_time_fields [simp]:
  "drawable_id (cache_time evs i) = drawable_id i" "client (cache_time evs i) = client i"
  "etype (cache_time evs i) = etype i" "frame (cache_time evs i) = frame i"
  "pipe (cache_time evs i) = pipe i" "count (cache_time evs i) = count i"
  "event_complete (cache_time evs i) = event_complete i"
  "event_data (cache_time evs i) = event_data i"
  "front_buf (cache_time evs i) = front_buf i" "back_buf (cache_time evs i) = back_buf i"
  "bo (cache_time evs i) = bo i" "chain (cache_time evs i) = chain i"
  "old_front (cache_time evs i) = old_front i" "next_front (cache_time evs i) = next_front i"
  "cache (cache_time evs i) = cache i"
  by (induction evs arbitrary: i; simp)+









lemma log_filters_events [simp]:
  "notifications (s\<lparr>events := x\<rparr>) = notifications s" "vblanks (s\<lparr>events := x\<rparr>) = vblanks s"
  "failures (s\<lparr>events := x\<rparr>) = failures s" "copies (s\<lparr>events := x\<rparr>) = copies s"
  "can_flip cfg (s\<lparr>events := x\<rparr>) draw f b = can_flip cfg s draw f b"
  "fits (s\<lparr>events := x\<rparr>) draw b = fits s draw b"
  by (simp_all add: notifications_def vblanks_def failures_def copies_def can_flip_conj fits_def)




section \<open>A swap is never dropped\<close>












section \<open>Which windows flip\<close>










section \<open>Requests chained behind a pending one\<close>

text \<open>The immediate paths of \<open>sna_dri_schedule_swap\<close> (divisor 0, no flip possible): the
  first request on an idle drawable is carried out and notified at once and its event
  becomes the head of the drawable's chain; a request that finds a head is stored in the
  head's \<open>chain\<close> field, under \<open>assert(priv->chain->chain == NULL)\<close>.\<close>

lemma fits_chain [simp]:
  "fits (upd_buffer x (\<lambda>p. p\<lparr>priv_chain := c\<rparr>) s) draw b = fits s draw b"
  "can_flip cfg (upd_buffer x (\<lambda>p. p\<lparr>priv_chain := c\<rparr>) s) draw f b = can_flip cfg s draw f b"
  by (simp_all add: fits_def can_flip_conj)













lemma window_facts:
  "sna_dri_get_pipe fullscreen_window \<noteq> - 1" "sna_dri_get_pipe fullscreen_window = 0"
  "draw_id fullscreen_window \<noteq> 0" "draw_id fullscreen_window = 7"
  "\<not> all_clipped fullscreen_window"
  "dixLookupDrawable ok_answers (draw_id fullscreen_window) = Some fullscreen_window"
  by (simp_all add: sna_dri_get_pipe_def fullscreen_window_def ok_answers_def
      all_clipped_def screen_box_def)

lemma answers_facts:
  "calloc_ok ok_answers" "client_resource_ok ok_answers" "drawable_resource_ok ok_answers"
  "vbl_arm ok_answers = Some 100" "vbl_chain ok_answers = Some 100"
  "vbl_query ok_answers = Some 100" "\<not> (bo_busy ok_answers \<and> bo_busy_retired ok_answers)"
  "page_flip_count ok_answers \<noteq> 0"
  by (simp_all add: ok_answers_def)









section \<open>A swap with divisor 0\<close>





section \<open>Completion after the client or the drawable has gone\<close>

text \<open>The two cleanup callbacks change nothing but the events on their list, which lose
  their client, or their drawable.\<close>

lemma client_gone_loop_fields:
  "buffers (client_gone_loop c s) = buffers s \<and> bos (client_gone_loop c s) = bos s \<and>
   pixmaps (client_gone_loop c s) = pixmaps s \<and> log (client_gone_loop c s) = log s \<and>
   flip_pending (client_gone_loop c s) = flip_pending s \<and>
   vblank_queue (client_gone_loop c s) = vblank_queue s \<and>
   drawable_resource (client_gone_loop c s) = drawable_resource s"
proof (induction c s rule: client_gone_loop.induct)
  case (1 c s)
  show ?case
  proof (cases "client_resource s c")
    case Nil
    then show ?thesis by (subst (1 2 3 4 5 6 7) client_gone_loop.simps) simp
  next
    case (Cons e es)
    from 1 [OF Cons] Cons show ?thesis
      by (subst (1 2 3 4 5 6 7) client_gone_loop.simps) (simp add: list_del_client_def)
  qed
qed

lemma client_gone_loop_events:
  "events (client_gone_loop c s) e =
     (if e \<in> set (client_resource s c)
      then map_option (\<lambda>i. i\<lparr>client := None\<rparr>) (events s e) else events s e)"
proof (induction c s rule: client_gone_loop.induct)
  case (1 c s)
  show ?case
  proof (cases "client_resource s c")
    case Nil
    then show ?thesis by (subst client_gone_loop.simps) simp
  next
    case (Cons x xs)
    let ?s1 = "upd_event x (\<lambda>i. i\<lparr>client := None\<rparr>) (list_del_client x s)"
    have l: "client_gone_loop c s = client_gone_loop c ?s1"
      using Cons by (subst client_gone_loop.simps) simp
    have r: "client_resource ?s1 c = removeAll x xs"
      using Cons by (simp add: list_del_client_def)
    have ev: "events ?s1 = (events s)(x := map_option (\<lambda>i. i\<lparr>client := None\<rparr>) (events s x))"
      by (simp add: upd_event_def list_del_client_def)
    show ?thesis
      unfolding l 1 [OF Cons] r ev using Cons by auto
  qed
qed

lemma drawable_gone_loop_fields:
  "buffers (drawable_gone_loop d s) = buffers s \<and> bos (drawable_gone_loop d s) = bos s \<and>
   pixmaps (drawable_gone_loop d s) = pixmaps s \<and> log (drawable_gone_loop d s) = log s \<and>
   flip_pending (drawable_gone_loop d s) = flip_pending s \<and>
   vblank_queue (drawable_gone_loop d s) = vblank_queue s \<and>
   client_resource (drawable_gone_loop d s) = client_resource s"
proof (induction d s rule: drawable_gone_loop.induct)
  case (1 d s)
  show ?case
  proof (cases "drawable_resource s d")
    case Nil
    then show ?thesis by (subst (1 2 3 4 5 6 7) drawable_gone_loop.simps) simp
  next
    case (Cons e es)
    from 1 [OF Cons] Cons show ?thesis
      by (subst (1 2 3 4 5 6 7) drawable_gone_loop.simps) (simp add: list_del_drawable_def)
  qed
qed

lemma drawable_gone_loop_events:
  "events (drawable_gone_loop d s) e =
     (if e \<in> set (drawable_resource s d)
      then map_option (\<lambda>i. i\<lparr>drawable_id := 0\<rparr>) (events s e) else events s e)"
proof (induction d s rule: drawable_gone_loop.induct)
  case (1 d s)
  show ?case
  proof (cases "drawable_resource s d")
    case Nil
    then show ?thesis by (subst drawable_gone_loop.simps) simp
  next
    case (Cons x xs)
    let ?s1 = "upd_event x (\<lambda>i. i\<lparr>drawable_id := 0\<rparr>) (list_del_drawable x s)"
    have l: "drawable_gone_loop d s = drawable_gone_loop d ?s1"
      using Cons by (subst drawable_gone_loop.simps) simp
    have r: "drawable_resource ?s1 d = removeAll x xs"
      using Cons by (simp add: list_del_drawable_def)
    have ev: "events ?s1 = (events s)(x := map_option (\<lambda>i. i\<lparr>drawable_id := 0\<rparr>) (events s x))"
      by (simp add: upd_event_def list_del_drawable_def)
    show ?thesis
      unfolding l 1 [OF Cons] r ev using Cons by auto
  qed
qed

lemma client_gone_event:
  assumes "events s e = Some info" and "e \<in> set (client_resource s c)"
  shows "events (sna_dri_frame_event_client_gone c s) e = Some (info\<lparr>client := None\<rparr>)"
    and "buffers (sna_dri_frame_event_client_gone c s) = buffers s"
    and "notifications (sna_dri_frame_event_client_gone c s) = notifications s"
    and "copies (sna_dri_frame_event_client_gone c s) = copies s"
  using assms
  by (simp_all add: sna_dri_frame_event_client_gone_def client_gone_loop_events
      client_gone_loop_fields notifications_def copies_def del: client_gone_loop.simps)

lemma drawable_gone_event:
  assumes "events s e = Some info" and "e \<in> set (drawable_resource s d)"
  shows "events (sna_dri_frame_event_drawable_gone d s) e = Some (info\<lparr>drawable_id := 0\<rparr>)"
    and "buffers (sna_dri_frame_event_drawable_gone d s) = buffers s"
    and "notifications (sna_dri_frame_event_drawable_gone d s) = notifications s"
    and "copies (sna_dri_frame_event_drawable_gone d s) = copies s"
  using assms
  by (simp_all add: sna_dri_frame_event_drawable_gone_def drawable_gone_loop_events
      drawable_gone_loop_fields notifications_def copies_def del: drawable_gone_loop.simps)

lemma vblank_no_drawable:
  assumes ev: "events s e = Some info" and u: "user_data event = e"
    and gone: "drawable_id info = 0 \<or> dixLookupDrawable ans (drawable_id info) = None"
  shows "\<exists>s'. sna_dri_vblank_handler cfg ans event s = Inr s' \<and>
           events s' = (events s)(e := None) \<and> notifications s' = notifications s \<and>
           copies s' = copies s \<and> vblanks s' = vblanks s"
proof -
  have r: "sna_dri_vblank_handler cfg ans event s = sna_dri_frame_event_info_free e s"
    using ev u gone by (auto simp: sna_dri_vblank_handler_def Let_def)
  from info_free_total [OF ev] obtain s' where
    "sna_dri_frame_event_info_free e s = Inr s'" "events s' = (events s)(e := None)"
    "notifications s' = notifications s" "copies s' = copies s" "vblanks s' = vblanks s"
    by (elim exE conjE) (rule that; assumption)
  then show ?thesis unfolding r by (intro exI [of _ s']) simp
qed

lemma vblank_waitmsc:
  assumes ev: "events s e = Some info" and u: "user_data event = e"
    and ty: "etype info = DRI2_WAITMSC"
  shows "\<exists>s'. sna_dri_vblank_handler cfg ans event s = Inr s' \<and>
           events s' = (events s)(e := None) \<and>
           notifications s' = notifications s @
             (case (if drawable_id info \<noteq> 0 then dixLookupDrawable ans (drawable_id info)
                    else None) of
                None \<Rightarrow> []
              | Some draw \<Rightarrow>
                  (case client info of
                     None \<Rightarrow> []
                   | Some c \<Rightarrow> [WaitMSCComplete c (draw_id draw) (sequence event)
                                   (tv_sec event) (tv_usec event)])) \<and>
           copies s' = copies s \<and> vblanks s' = vblanks s"
proof (cases "if drawable_id info \<noteq> 0 then dixLookupDrawable ans (drawable_id info) else None")
  case None
  then have "drawable_id info = 0 \<or> dixLookupDrawable ans (drawable_id info) = None"
    by (auto split: if_splits)
  from vblank_no_drawable [OF ev u this, of cfg] None show ?thesis by simp
next
  case (Some draw)
  let ?s1 = "case client info of
               Some c \<Rightarrow> emit (WaitMSCComplete c (draw_id draw)
                                 (sequence event) (tv_sec event) (tv_usec event)) s
             | None \<Rightarrow> s"
  have r: "sna_dri_vblank_handler cfg ans event s = sna_dri_frame_event_info_free e ?s1"
    using ev u ty Some by (simp add: sna_dri_vblank_handler_def Let_def)
  have ev1: "events ?s1 e = Some info" using ev by (simp split: option.splits)
  from info_free_total [OF ev1] obtain s' where
    "sna_dri_frame_event_info_free e ?s1 = Inr s'" "events s' = (events ?s1)(e := None)"
    "notifications s' = notifications ?s1" "copies s' = copies ?s1" "vblanks s' = vblanks ?s1"
    by (elim exE conjE) (rule that; assumption)
  then show ?thesis
    unfolding r using Some by (intro exI [of _ s']) (simp split: option.splits)
qed

lemma vblank_swap_unchained:
  assumes ev: "events s e = Some info" and u: "user_data event = e"
    and ty: "etype info = DRI2_SWAP"
    and d: "drawable_id info \<noteq> 0" "dixLookupDrawable ans (drawable_id info) = Some draw"
    and nb: "\<not> (bo_busy ans \<and> bo_busy_retired ans)"
    and ch: "chain info = None" "priv_chain (buffers s (front_buf info)) \<noteq> Some e"
  shows "\<exists>s'. sna_dri_vblank_handler cfg ans event s = Inr s' \<and>
           events s' = (events s)(e := None) \<and>
           notifications s' = notifications s @
             [SwapComplete (client info) (draw_id draw) (sequence event) (tv_sec event)
                (tv_usec event) DRI2_BLIT_COMPLETE
                (if client info \<noteq> None then event_complete info else None) (event_data info)] \<and>
           copies s' = copies s @
             copy_issued draw (priv_bo (buffers s (front_buf info)))
               (priv_bo (buffers s (back_buf info))) True"
proof -
  let ?s3 = "upd_event e (\<lambda>i. i\<lparr>etype := DRI2_SWAP_THROTTLE\<rparr>)
               (upd_event e (\<lambda>i. i\<lparr>bo := copy_returned ans draw True\<rparr>)
                  (emits (copy_issued draw (priv_bo (buffers s (front_buf info)))
                            (priv_bo (buffers s (back_buf info))) True) s))"
  let ?s4 = "DRI2SwapComplete (client info) draw (sequence event) (tv_sec event) (tv_usec event)
               DRI2_BLIT_COMPLETE (if client info \<noteq> None then event_complete info else None)
               (event_data info) ?s3"
  have nb': "(bo_busy ans \<and> bo_busy_retired ans) = False" using nb by simp
  have th: "vblank_SWAP cfg ans draw event e s = Inr (True, ?s4)"
    using ev ch
    by (simp add: vblank_SWAP_def vblank_SWAP_THROTTLE_def Let_def nb' del: not_None_eq)
  have r: "sna_dri_vblank_handler cfg ans event s = sna_dri_frame_event_info_free e ?s4"
    using ev u ty d th by (simp add: sna_dri_vblank_handler_def Let_def del: not_None_eq)
  have ev4: "events ?s4 e = Some (info\<lparr>bo := copy_returned ans draw True,
                                        etype := DRI2_SWAP_THROTTLE\<rparr>)"
    using ev by simp
  from info_free_total [OF ev4] obtain s' where
    "sna_dri_frame_event_info_free e ?s4 = Inr s'" "events s' = (events ?s4)(e := None)"
    "notifications s' = notifications ?s4" "copies s' = copies ?s4"
    by (elim exE conjE) (rule that; assumption)
  then show ?thesis
    unfolding r by (intro exI [of _ s']) (simp add: fun_eq_iff del: not_None_eq)
qed

lemma waiting_facts:
  "events waiting_sna 1 = Some (calloc_event\<lparr>drawable_id := 7, client := Some 3,
                  etype := DRI2_SWAP, event_complete := Some 9, event_data := 42,
                  front_buf := 1, back_buf := 2\<rparr>)"
  "1 \<in> set (client_resource waiting_sna 3)" "1 \<in> set (drawable_resource waiting_sna 7)"
  "priv_chain (buffers waiting_sna 1) = None"
  "priv_bo (buffers waiting_sna 1) = 11" "priv_bo (buffers waiting_sna 2) = 12"
  "notifications waiting_sna = []" "copies waiting_sna = []"
  by (simp_all add: waiting_sna_def idle_sna_def notifications_def copies_def)

lemma flip_done_facts:
  "user_data flip_done = 1" "sequence flip_done = 101" "tv_sec flip_done = 5"
  "tv_usec flip_done = 6"
  by (simp_all add: flip_done_def)

lemma copy_issued_window:
  "copy_issued fullscreen_window a b y = [CopyToFront 7 a b y]"
  by (simp add: copy_issued_def all_clipped_def fullscreen_window_def screen_box_def)

text \<open>
  Claim C7 (as amended). Take a pending frame event and the vertical-blank interrupt that
  completes it. If the drawable of the event was destroyed (the cleanup callback of the
  drawable has run, or the lookup of the drawable fails), the handler frees the event,
  sends no notification, copies nothing, and reads neither the drawable nor the client. If
  the client of the event has disconnected (its cleanup callback has run), a
  \<open>DRI2_WAITMSC\<close> event is freed with no notification; a \<open>DRI2_SWAP\<close> event whose
  drawable is still there is carried out (the back buffer is copied to the front) and
  \<open>DRI2SwapComplete\<close> is still called, with a null client and a null callback, before
  the event is freed.
\<close>

theorem stale_event_completion:
  assumes ev: "events s e = Some info" and u: "user_data event = e"
  shows
   "(e \<in> set (drawable_resource s d) \<longrightarrow>
       (\<exists>s'. sna_dri_vblank_handler cfg ans event (sna_dri_frame_event_drawable_gone d s)
               = Inr s' \<and>
             events s' e = None \<and> notifications s' = notifications s \<and>
             copies s' = copies s)) \<and>
    (dixLookupDrawable ans (drawable_id info) = None \<longrightarrow>
       (\<exists>s'. sna_dri_vblank_handler cfg ans event s = Inr s' \<and>
             events s' e = None \<and> notifications s' = notifications s \<and>
             copies s' = copies s)) \<and>
    (e \<in> set (client_resource s c) \<and> etype info = DRI2_WAITMSC \<longrightarrow>
       (\<exists>s'. sna_dri_vblank_handler cfg ans event (sna_dri_frame_event_client_gone c s)
               = Inr s' \<and>
             events s' e = None \<and> notifications s' = notifications s \<and>
             copies s' = copies s)) \<and>
    (e \<in> set (client_resource s c) \<and> etype info = DRI2_SWAP \<and> drawable_id info \<noteq> 0 \<and>
     dixLookupDrawable ans (drawable_id info) = Some draw \<and>
     \<not> (bo_busy ans \<and> bo_busy_retired ans) \<and>
     chain info = None \<and> priv_chain (buffers s (front_buf info)) \<noteq> Some e \<longrightarrow>
       (\<exists>s'. sna_dri_vblank_handler cfg ans event (sna_dri_frame_event_client_gone c s)
               = Inr s' \<and>
             events s' e = None \<and>
             notifications s' = notifications s @
               [SwapComplete None (draw_id draw) (sequence event) (tv_sec event)
                  (tv_usec event) DRI2_BLIT_COMPLETE None (event_data info)] \<and>
             copies s' = copies s @
               copy_issued draw (priv_bo (buffers s (front_buf info)))
                 (priv_bo (buffers s (back_buf info))) True))"
proof (intro conjI impI)
  assume m: "e \<in> set (drawable_resource s d)"
  let ?s1 = "sna_dri_frame_event_drawable_gone d s"
  note g = drawable_gone_event [OF ev m]
  have "drawable_id (info\<lparr>drawable_id := 0\<rparr>) = 0 \<or>
        dixLookupDrawable ans (drawable_id (info\<lparr>drawable_id := 0\<rparr>)) = None" by simp
  from vblank_no_drawable [OF g(1) u this, of cfg]
  obtain s' where "sna_dri_vblank_handler cfg ans event ?s1 = Inr s'"
    "events s' = (events ?s1)(e := None)" "notifications s' = notifications ?s1"
    "copies s' = copies ?s1"
    by (elim exE conjE) (rule that; assumption)
  then show "\<exists>s'. sna_dri_vblank_handler cfg ans event ?s1 = Inr s' \<and>
             events s' e = None \<and> notifications s' = notifications s \<and> copies s' = copies s"
    using g(3,4) by (intro exI [of _ s']) simp
next
  assume "dixLookupDrawable ans (drawable_id info) = None"
  then have "drawable_id info = 0 \<or> dixLookupDrawable ans (drawable_id info) = None" by simp
  from vblank_no_drawable [OF ev u this, of cfg]
  obtain s' where "sna_dri_vblank_handler cfg ans event s = Inr s'"
    "events s' = (events s)(e := None)" "notifications s' = notifications s"
    "copies s' = copies s"
    by (elim exE conjE) (rule that; assumption)
  then show "\<exists>s'. sna_dri_vblank_handler cfg ans event s = Inr s' \<and>
             events s' e = None \<and> notifications s' = notifications s \<and> copies s' = copies s"
    by (intro exI [of _ s']) simp
next
  assume a: "e \<in> set (client_resource s c) \<and> etype info = DRI2_WAITMSC"
  let ?s1 = "sna_dri_frame_event_client_gone c s"
  from a have m: "e \<in> set (client_resource s c)" and ty: "etype info = DRI2_WAITMSC"
    by simp_all
  note g = client_gone_event [OF ev m]
  have ty': "etype (info\<lparr>client := None\<rparr>) = DRI2_WAITMSC" using ty by simp
  from vblank_waitmsc [OF g(1) u ty', of cfg ans]
  obtain s' where "sna_dri_vblank_handler cfg ans event ?s1 = Inr s'"
    "events s' = (events ?s1)(e := None)"
    "notifications s' = notifications ?s1 @
       (case (if drawable_id (info\<lparr>client := None\<rparr>) \<noteq> 0
              then dixLookupDrawable ans (drawable_id (info\<lparr>client := None\<rparr>))
              else None) of
          None \<Rightarrow> []
        | Some draw \<Rightarrow>
            (case client (info\<lparr>client := None\<rparr>) of
               None \<Rightarrow> []
             | Some c \<Rightarrow> [WaitMSCComplete c (draw_id draw) (sequence event)
                             (tv_sec event) (tv_usec event)]))"
    "copies s' = copies ?s1"
    by (elim exE conjE) (rule that; assumption)
  then show "\<exists>s'. sna_dri_vblank_handler cfg ans event ?s1 = Inr s' \<and>
             events s' e = None \<and> notifications s' = notifications s \<and> copies s' = copies s"
    using g(3,4) by (intro exI [of _ s']) (simp split: option.splits)
next
  assume a: "e \<in> set (client_resource s c) \<and> etype info = DRI2_SWAP \<and> drawable_id info \<noteq> 0 \<and>
     dixLookupDrawable ans (drawable_id info) = Some draw \<and>
     \<not> (bo_busy ans \<and> bo_busy_retired ans) \<and>
     chain info = None \<and> priv_chain (buffers s (front_buf info)) \<noteq> Some e"
  let ?s1 = "sna_dri_frame_event_client_gone c s"
  let ?i = "info\<lparr>client := None\<rparr>"
  from a have m: "e \<in> set (client_resource s c)" by simp
  note g = client_gone_event [OF ev m]
  from a have ty: "etype ?i = DRI2_SWAP"
    and d: "drawable_id ?i \<noteq> 0" "dixLookupDrawable ans (drawable_id ?i) = Some draw"
    and nb: "\<not> (bo_busy ans \<and> bo_busy_retired ans)"
    and ch: "chain ?i = None" "priv_chain (buffers ?s1 (front_buf ?i)) \<noteq> Some e"
    by (simp_all add: g(2))
  from vblank_swap_unchained [OF g(1) u ty d nb ch, of cfg]
  obtain s' where "sna_dri_vblank_handler cfg ans event ?s1 = Inr s'"
    "events s' = (events ?s1)(e := None)"
    "notifications s' = notifications ?s1 @
       [SwapComplete (client ?i) (draw_id draw) (sequence event) (tv_sec event)
          (tv_usec event) DRI2_BLIT_COMPLETE
          (if client ?i \<noteq> None then event_complete ?i else None) (event_data ?i)]"
    "copies s' = copies ?s1 @
       copy_issued draw (priv_bo (buffers ?s1 (front_buf ?i)))
         (priv_bo (buffers ?s1 (back_buf ?i))) True"
    by (elim exE conjE) (rule that; assumption)
  then show "\<exists>s'. sna_dri_vblank_handler cfg ans event ?s1 = Inr s' \<and>
             events s' e = None \<and>
             notifications s' = notifications s @
               [SwapComplete None (draw_id draw) (sequence event) (tv_sec event)
                  (tv_usec event) DRI2_BLIT_COMPLETE None (event_data info)] \<and>
             copies s' = copies s @
               copy_issued draw (priv_bo (buffers s (front_buf info)))
                 (priv_bo (buffers s (back_buf info))) True"
    using g(2,3,4) by (intro exI [of _ s']) simp
qed

theorem stale_event_completion_witness:
  "(\<exists>s'. sna_dri_vblank_handler default_config ok_answers flip_done
            (sna_dri_frame_event_drawable_gone 7 waiting_sna) = Inr s' \<and>
          events s' 1 = None \<and> notifications s' = [] \<and> copies s' = []) \<and>
   (\<exists>s'. sna_dri_vblank_handler default_config
            (ok_answers\<lparr>dixLookupDrawable := (\<lambda>i. None)\<rparr>) flip_done waiting_sna = Inr s' \<and>
          events s' 1 = None \<and> notifications s' = [] \<and> copies s' = []) \<and>
   (\<exists>s'. sna_dri_vblank_handler default_config ok_answers flip_done
            (sna_dri_frame_event_client_gone 3
               (upd_event 1 (\<lambda>i. i\<lparr>etype := DRI2_WAITMSC\<rparr>) waiting_sna)) = Inr s' \<and>
          events s' 1 = None \<and> notifications s' = [] \<and> copies s' = []) \<and>
   (\<exists>s'. sna_dri_vblank_handler default_config ok_answers flip_done
            (sna_dri_frame_event_client_gone 3 waiting_sna) = Inr s' \<and>
          events s' 1 = None \<and>
          notifications s' = [SwapComplete None 7 101 5 6 DRI2_BLIT_COMPLETE None 42] \<and>
          copies s' = [CopyToFront 7 11 12 True])"
proof -
  let ?i = "calloc_event\<lparr>drawable_id := 7, client := Some 3,
                  etype := DRI2_SWAP, event_complete := Some 9, event_data := 42,
                  front_buf := 1, back_buf := 2\<rparr>"
  let ?w = "upd_event 1 (\<lambda>i. i\<lparr>etype := DRI2_WAITMSC\<rparr>) waiting_sna"
  note a = stale_event_completion [OF waiting_facts(1) flip_done_facts(1),
      of 7 default_config ok_answers 3 fullscreen_window]
  note b = stale_event_completion [OF waiting_facts(1) flip_done_facts(1),
      of 7 default_config "ok_answers\<lparr>dixLookupDrawable := (\<lambda>i. None)\<rparr>" 3 fullscreen_window]
  have evw: "events ?w 1 = Some (?i\<lparr>etype := DRI2_WAITMSC\<rparr>)"
    using waiting_facts(1) by simp
  note c = stale_event_completion [OF evw flip_done_facts(1),
      of 7 default_config ok_answers 3 fullscreen_window]
  have p1: "1 \<in> set (drawable_resource waiting_sna 7)" by (rule waiting_facts(3))
  have p2: "dixLookupDrawable (ok_answers\<lparr>dixLookupDrawable := (\<lambda>i. None)\<rparr>) (drawable_id ?i) = None"
    by simp
  have p3: "1 \<in> set (client_resource ?w 3) \<and> etype (?i\<lparr>etype := DRI2_WAITMSC\<rparr>) = DRI2_WAITMSC"
    using waiting_facts(2) by (simp add: upd_event_def)
  have p4: "1 \<in> set (client_resource waiting_sna 3) \<and> etype ?i = DRI2_SWAP \<and>
     drawable_id ?i \<noteq> 0 \<and>
     dixLookupDrawable ok_answers (drawable_id ?i) = Some fullscreen_window \<and>
     \<not> (bo_busy ok_answers \<and> bo_busy_retired ok_answers) \<and>
     chain ?i = None \<and> priv_chain (buffers waiting_sna (front_buf ?i)) \<noteq> Some 1"
    using waiting_facts(2,4) by (simp add: ok_answers_def calloc_event_def)
  have nw: "notifications ?w = []" "copies ?w = []"
    using waiting_facts(7,8) by (simp_all add: notifications_def copies_def upd_event_def)
  have f: "front_buf ?i = 1" "back_buf ?i = 2" "event_data ?i = 42" by simp_all
  from a [THEN conjunct1, rule_format, OF p1]
  have "\<exists>s'. sna_dri_vblank_handler default_config ok_answers flip_done
            (sna_dri_frame_event_drawable_gone 7 waiting_sna) = Inr s' \<and>
          events s' 1 = None \<and> notifications s' = [] \<and> copies s' = []"
    by (simp add: waiting_facts(7,8))
  moreover from b [THEN conjunct2, THEN conjunct1, rule_format, OF p2]
  have "\<exists>s'. sna_dri_vblank_handler default_config
            (ok_answers\<lparr>dixLookupDrawable := (\<lambda>i. None)\<rparr>) flip_done waiting_sna = Inr s' \<and>
          events s' 1 = None \<and> notifications s' = [] \<and> copies s' = []"
    by (simp add: waiting_facts(7,8))
  moreover from c [THEN conjunct2, THEN conjunct2, THEN conjunct1, rule_format, OF p3]
  have "\<exists>s'. sna_dri_vblank_handler default_config ok_answers flip_done
            (sna_dri_frame_event_client_gone 3 ?w) = Inr s' \<and>
          events s' 1 = None \<and> notifications s' = [] \<and> copies s' = []"
    by (simp add: nw waiting_facts(7,8))
  moreover from a [THEN conjunct2, THEN conjunct2, THEN conjunct2, rule_format, OF p4]
  have "\<exists>s'. sna_dri_vblank_handler default_config ok_answers flip_done
            (sna_dri_frame_event_client_gone 3 waiting_sna) = Inr s' \<and>
          events s' 1 = None \<and>
          notifications s' = [SwapComplete None 7 101 5 6 DRI2_BLIT_COMPLETE None 42] \<and>
          copies s' = [CopyToFront 7 11 12 True]"
    unfolding f
    by (simp add: waiting_facts(5,6,7,8) flip_done_facts copy_issued_window window_facts(4)
        del: One_nat_def)
  ultimately show ?thesis by (intro conjI)
qed

text \<open>
  Claim C7 as stated (after the client has disconnected the completion interrupt frees the
  event without invoking the client-notification collaborator) fails for a swap that waits
  for its vertical blank: client 3 disconnects, the window is still there, and the handler
  calls \<open>DRI2SwapComplete\<close> with a null client.
\<close>

theorem gone_client_notified_counterexample:
  "\<exists>s'. sna_dri_vblank_handler default_config ok_answers flip_done
           (sna_dri_frame_event_client_gone 3 waiting_sna) = Inr s' \<and>
         events s' 1 = None \<and>
         notifications s' = [SwapComplete None 7 101 5 6 DRI2_BLIT_COMPLETE None 42]"
proof -
  let ?i = "calloc_event\<lparr>drawable_id := 7, client := Some 3,
                  etype := DRI2_SWAP, event_complete := Some 9, event_data := 42,
                  front_buf := 1, back_buf := 2\<rparr>"
  let ?s1 = "sna_dri_frame_event_client_gone 3 waiting_sna"
  note g = client_gone_event [OF waiting_facts(1) waiting_facts(2)]
  have ty: "etype (?i\<lparr>client := None\<rparr>) = DRI2_SWAP" by simp
  have d: "drawable_id (?i\<lparr>client := None\<rparr>) \<noteq> 0"
    "dixLookupDrawable ok_answers (drawable_id (?i\<lparr>client := None\<rparr>)) = Some fullscreen_window"
    by (simp_all add: ok_answers_def)
  have ch: "chain (?i\<lparr>client := None\<rparr>) = None"
    "priv_chain (buffers ?s1 (front_buf (?i\<lparr>client := None\<rparr>))) \<noteq> Some 1"
    using waiting_facts(4) by (simp_all add: g(2) calloc_event_def)
  from vblank_swap_unchained [OF g(1) flip_done_facts(1) ty d answers_facts(7) ch,
      of default_config]
  obtain s' where "sna_dri_vblank_handler default_config ok_answers flip_done ?s1 = Inr s'"
    "events s' = (events ?s1)(1 := None)"
    "notifications s' = notifications ?s1 @
       [SwapComplete (client (?i\<lparr>client := None\<rparr>)) (draw_id fullscreen_window)
          (sequence flip_done) (tv_sec flip_done) (tv_usec flip_done) DRI2_BLIT_COMPLETE
          (if client (?i\<lparr>client := None\<rparr>) \<noteq> None
           then event_complete (?i\<lparr>client := None\<rparr>) else None)
          (event_data (?i\<lparr>client := None\<rparr>))]"
    by (elim exE conjE) (rule that; assumption)
  then show ?thesis
    by (intro exI [of _ s'])
       (simp add: g(3) waiting_facts(7) flip_done_facts window_facts(4) del: One_nat_def)
qed

end
